theory Spec2Isabelle
  imports Complex_Main
begin

section \<open>Python values\<close>

text \<open>
  The bot (\<^verbatim>\<open>app.py\<close>) keeps its whole state in Python dictionaries and exchanges JSON
  with its classifier.  A JSON value as \<^verbatim>\<open>json.loads\<close> produces it: \<^verbatim>\<open>None\<close>, a bool,
  an int, a float, a str, a list, or a dict.  A dict is an association list in insertion
  order, which is the order Python keeps.  A str is the list of its UTF-8 bytes, so the
  characters outside ASCII that the messages use are written byte by byte.
\<close>

datatype pyfloat = Finite real | PosInf | NegInf | NaN

datatype json =
    JNull
  | JBool bool
  | JInt int
  | JFloat pyfloat
  | JStr string
  | JArr "json list"
  | JObj "(string \<times> json) list"

type_synonym pydict = "(string \<times> json) list"

text \<open>\<^verbatim>\<open>k in d\<close>\<close>

definition dict_has :: "pydict \<Rightarrow> string \<Rightarrow> bool" where
  "dict_has d k = (map_of d k \<noteq> None)"

text \<open>\<^verbatim>\<open>d.get(k, default)\<close> and \<^verbatim>\<open>d.get(k)\<close>, whose default is \<^verbatim>\<open>None\<close>\<close>

definition dict_get_or :: "pydict \<Rightarrow> string \<Rightarrow> json \<Rightarrow> json" where
  "dict_get_or d k dflt = (case map_of d k of None \<Rightarrow> dflt | Some v \<Rightarrow> v)"

definition dict_get :: "pydict \<Rightarrow> string \<Rightarrow> json" where
  "dict_get d k = dict_get_or d k JNull"

text \<open>\<^verbatim>\<open>d[k] = v\<close>: an existing key keeps its place, a new key goes last.\<close>

fun dict_set :: "pydict \<Rightarrow> string \<Rightarrow> json \<Rightarrow> pydict" where
  "dict_set [] k v = [(k, v)]"
| "dict_set ((k', v') # d) k v = (if k' = k then (k, v) # d else (k', v') # dict_set d k v)"

text \<open>Truth value of a Python object, as \<^verbatim>\<open>not x\<close> and \<^verbatim>\<open>if x:\<close> test it.\<close>

fun py_truthy :: "json \<Rightarrow> bool" where
  "py_truthy JNull = False"
| "py_truthy (JBool b) = b"
| "py_truthy (JInt n) = (n \<noteq> 0)"
| "py_truthy (JFloat (Finite r)) = (r \<noteq> 0)"
| "py_truthy (JFloat _) = True"
| "py_truthy (JStr s) = (s \<noteq> [])"
| "py_truthy (JArr xs) = (xs \<noteq> [])"
| "py_truthy (JObj kvs) = (kvs \<noteq> [])"

text \<open>\<^verbatim>\<open>isinstance(x, dict)\<close>\<close>

fun is_dict :: "json \<Rightarrow> bool" where
  "is_dict (JObj _) = True"
| "is_dict _ = False"

section \<open>Python strings\<close>

text \<open>
  The characters outside ASCII of the bot's messages, in UTF-8: the warning sign and the
  pencil (each followed by the variation selector U+FE0F, as in the source), the check
  mark, the cross mark, the party popper, the floppy disk, the two arrows and the bullet.
\<close>

definition warning_sign :: string where
  "warning_sign = [CHR 0xE2, CHR 0x9A, CHR 0xA0, CHR 0xEF, CHR 0xB8, CHR 0x8F]"

definition pencil :: string where
  "pencil = [CHR 0xE2, CHR 0x9C, CHR 0x8F, CHR 0xEF, CHR 0xB8, CHR 0x8F]"

definition check_mark :: string where
  "check_mark = [CHR 0xE2, CHR 0x9C, CHR 0x85]"

definition cross_mark :: string where
  "cross_mark = [CHR 0xE2, CHR 0x9D, CHR 0x8C]"

definition party_popper :: string where
  "party_popper = [CHR 0xF0, CHR 0x9F, CHR 0x8E, CHR 0x89]"

definition floppy_disk :: string where
  "floppy_disk = [CHR 0xF0, CHR 0x9F, CHR 0x92, CHR 0xBE]"

definition arrows :: string where
  "arrows = [CHR 0xF0, CHR 0x9F, CHR 0x94, CHR 0x84]"

definition bullet :: string where
  "bullet = [CHR 0xE2, CHR 0x80, CHR 0xA2]"

text \<open>
  The characters that \<^verbatim>\<open>str.strip()\<close> removes are those for which \<^verbatim>\<open>str.isspace\<close> holds:
  U+0009 to U+000D, U+001C to U+0020, U+0085, U+00A0, U+1680, U+2000 to U+200A, U+2028,
  U+2029, U+202F, U+205F and U+3000.  Their UTF-8 encodings:
\<close>

definition whitespace :: "string list" where
  "whitespace =
     [[CHR 0x09], [CHR 0x0A], [CHR 0x0B], [CHR 0x0C], [CHR 0x0D],
      [CHR 0x1C], [CHR 0x1D], [CHR 0x1E], [CHR 0x1F], [CHR 0x20],
      [CHR 0xC2, CHR 0x85], [CHR 0xC2, CHR 0xA0], [CHR 0xE1, CHR 0x9A, CHR 0x80],
      [CHR 0xE2, CHR 0x80, CHR 0x80], [CHR 0xE2, CHR 0x80, CHR 0x81],
      [CHR 0xE2, CHR 0x80, CHR 0x82], [CHR 0xE2, CHR 0x80, CHR 0x83],
      [CHR 0xE2, CHR 0x80, CHR 0x84], [CHR 0xE2, CHR 0x80, CHR 0x85],
      [CHR 0xE2, CHR 0x80, CHR 0x86], [CHR 0xE2, CHR 0x80, CHR 0x87],
      [CHR 0xE2, CHR 0x80, CHR 0x88], [CHR 0xE2, CHR 0x80, CHR 0x89],
      [CHR 0xE2, CHR 0x80, CHR 0x8A], [CHR 0xE2, CHR 0x80, CHR 0xA8],
      [CHR 0xE2, CHR 0x80, CHR 0xA9], [CHR 0xE2, CHR 0x80, CHR 0xAF],
      [CHR 0xE2, CHR 0x81, CHR 0x9F], [CHR 0xE3, CHR 0x80, CHR 0x80]]"

text \<open>The number of bytes of the whitespace character a string starts (ends) with, or 0.\<close>

definition leading_space :: "string \<Rightarrow> nat" where
  "leading_space s =
     (case find (\<lambda>w. take (length w) s = w) whitespace of None \<Rightarrow> 0 | Some w \<Rightarrow> length w)"

definition trailing_space :: "string \<Rightarrow> nat" where
  "trailing_space s =
     (case find (\<lambda>w. length w \<le> length s \<and> drop (length s - length w) s = w) whitespace of
        None \<Rightarrow> 0 | Some w \<Rightarrow> length w)"

function lstrip :: "string \<Rightarrow> string" where
  "lstrip s = (if leading_space s = 0 then s else lstrip (drop (leading_space s) s))"
  by pat_completeness auto
termination
proof (relation "measure length")
  show "wf (measure length)" by simp
next
  fix s :: string
  assume "leading_space s \<noteq> 0"
  moreover have "leading_space [] = 0"
    by (simp add: leading_space_def whitespace_def)
  ultimately have "s \<noteq> []" by auto
  with \<open>leading_space s \<noteq> 0\<close> show "(drop (leading_space s) s, s) \<in> measure length"
    by (cases s) auto
qed

function rstrip :: "string \<Rightarrow> string" where
  "rstrip s = (if trailing_space s = 0 then s else rstrip (take (length s - trailing_space s) s))"
  by pat_completeness auto
termination
proof (relation "measure length")
  show "wf (measure length)" by simp
next
  fix s :: string
  assume "trailing_space s \<noteq> 0"
  moreover have "trailing_space [] = 0"
    by (simp add: trailing_space_def whitespace_def)
  ultimately have "s \<noteq> []" by auto
  with \<open>trailing_space s \<noteq> 0\<close> show "(take (length s - trailing_space s) s, s) \<in> measure length"
    by (cases s) auto
qed

declare lstrip.simps [simp del] rstrip.simps [simp del]

text \<open>\<^verbatim>\<open>s.strip()\<close>\<close>

definition py_strip :: "string \<Rightarrow> string" where
  "py_strip s = rstrip (lstrip s)"

text \<open>\<^verbatim>\<open>job_description.replace('**', '')\<close>: every occurrence, from the left, without overlap.\<close>

fun remove_double_star :: "string \<Rightarrow> string" where
  "remove_double_star (a # b # s) =
     (if a = CHR ''*'' \<and> b = CHR ''*'' then remove_double_star s
      else a # remove_double_star (b # s))"
| "remove_double_star s = s"

text \<open>\<^verbatim>\<open>"\n".join(messages)\<close>\<close>

fun join_lines :: "string list \<Rightarrow> string" where
  "join_lines [] = []"
| "join_lines [m] = m"
| "join_lines (m # ms) = m @ [CHR 0x0A] @ join_lines ms"

text \<open>
  \<^verbatim>\<open>s.startswith(p)\<close>, \<^verbatim>\<open>s.endswith(p)\<close>, \<^verbatim>\<open>sub in s\<close> and \<^verbatim>\<open>sep.join(parts)\<close>.  On UTF-8
  a text occurs in another as a sequence of characters exactly when it occurs in it as a
  sequence of bytes.
\<close>

definition startswith :: "string \<Rightarrow> string \<Rightarrow> bool" where
  "startswith s p = (take (length p) s = p)"

definition endswith :: "string \<Rightarrow> string \<Rightarrow> bool" where
  "endswith s p = (length p \<le> length s \<and> drop (length s - length p) s = p)"

fun contains :: "string \<Rightarrow> string \<Rightarrow> bool" where
  "contains sub [] = (sub = [])"
| "contains sub (c # s) = (take (length sub) (c # s) = sub \<or> contains sub s)"

fun py_join :: "string \<Rightarrow> string list \<Rightarrow> string" where
  "py_join sep [] = []"
| "py_join sep [part] = part"
| "py_join sep (part # parts) = part @ sep @ py_join sep parts"

text \<open>
  \<^verbatim>\<open>len(s)\<close> and \<^verbatim>\<open>s[:n]\<close> count characters: in UTF-8 every byte but the continuation bytes
  (\<^verbatim>\<open>0x80\<close> to \<^verbatim>\<open>0xBF\<close>) starts one.
\<close>

definition continuation :: "char \<Rightarrow> bool" where
  "continuation c = (128 \<le> (of_char c :: nat) \<and> (of_char c :: nat) < 192)"

definition py_len :: "string \<Rightarrow> nat" where
  "py_len s = length (filter (\<lambda>c. \<not> continuation c) s)"

function py_take :: "nat \<Rightarrow> string \<Rightarrow> string" where
  "py_take 0 s = []"
| "py_take (Suc n) [] = []"
| "py_take (Suc n) (c # s) = c # takeWhile continuation s @ py_take n (dropWhile continuation s)"
  by pat_completeness auto
termination
  by (relation "measure (\<lambda>(n, s). length s)") (auto simp add: length_dropWhile_le less_Suc_eq_le)

text \<open>
  \<^verbatim>\<open>str(x)\<close>, as an f-string applies it to a value.  A str is itself; \<^verbatim>\<open>None\<close> and the
  bools print as their names; the text of a number, a list or a dict is Python's, given
  by the parameter \<open>repr\<close>.
\<close>

fun py_str :: "(json \<Rightarrow> string) \<Rightarrow> json \<Rightarrow> string" where
  "py_str repr (JStr s) = s"
| "py_str repr JNull = ''None''"
| "py_str repr (JBool True) = ''True''"
| "py_str repr (JBool False) = ''False''"
| "py_str repr v = repr v"

section \<open>The state of the bot and its collaborators\<close>

text \<open>
  One entry of \<^verbatim>\<open>conversation_states\<close>: a dictionary created as
  \<^verbatim>\<open>{"user_id": ..., "messages": [...]}\<close>, to which the handlers later add the keys
  \<^verbatim>\<open>final_entities\<close>, \<^verbatim>\<open>processed\<close>, \<^verbatim>\<open>editing\<close> and \<^verbatim>\<open>original_entities\<close>; a key that
  was never set is \<open>None\<close>.
\<close>

record conversation =
  user_id :: string
  messages :: "string list"
  final_entities :: "pydict option"
  processed :: "bool option"
  editing :: "bool option"
  original_entities :: "pydict option"

text \<open>The dictionary \<^verbatim>\<open>{"user_id": user_id, "messages": [message_text]}\<close>\<close>

definition new_conversation :: "string \<Rightarrow> string \<Rightarrow> conversation" where
  "new_conversation user text =
     \<lparr>user_id = user, messages = [text], final_entities = None, processed = None,
      editing = None, original_entities = None\<rparr>"

text \<open>What \<^verbatim>\<open>slack_client.chat_postMessage\<close> is given: a text, or blocks with a fallback text.\<close>

datatype button = Button (label: string) (style: "string option") (action_id: string)

datatype block = Section string | Actions string "button list"

datatype slack_message = Text string | Blocks "block list" string

text \<open>
  What a handler does to the world outside the two dictionaries, in the order it does
  it: a message posted to a channel, and a call of a collaborator with its argument.
\<close>

datatype effect =
    Sent string slack_message
  | Classified string
  | Generated pydict
  | Posted pydict
  | Saved pydict

record world =
  conversation_states :: "string \<rightharpoonup> conversation"
  recently_completed :: "string \<rightharpoonup> bool"
  effects :: "effect list"

datatype py_exn =
    AttributeError | TypeError | KeyError | ValueError | FileNotFoundError
  | CollaboratorError string

text \<open>
  The collaborators, each a function of its argument that returns or raises:
  \<^verbatim>\<open>llm_agent.process_with_adk_agent\<close>, \<^verbatim>\<open>job_description_agent.generate_job_description\<close>
  (its five keyword parameters in the order of the \<^verbatim>\<open>def\<close>), \<^verbatim>\<open>linkedin_poster.post_job\<close>
  and \<^verbatim>\<open>state_manager.save_job_to_file\<close>; with them \<^verbatim>\<open>json.loads\<close>, \<^verbatim>\<open>str\<close> on a value that
  is not a str, and the bot's own user id.  Posting to Slack is taken to succeed.
\<close>

record env =
  bot_user_id :: string
  json_loads :: "string \<Rightarrow> json option"
  repr :: "json \<Rightarrow> string"
  llm_agent :: "string \<Rightarrow> py_exn + string"
  job_description_agent :: "json \<Rightarrow> json \<Rightarrow> json \<Rightarrow> json \<Rightarrow> json \<Rightarrow> py_exn + string"
  linkedin_poster :: "pydict \<Rightarrow> py_exn + bool \<times> string"
  state_manager :: "pydict \<Rightarrow> py_exn + bool"

definition chat_postMessage :: "string \<Rightarrow> slack_message \<Rightarrow> world \<Rightarrow> world" where
  "chat_postMessage channel msg w = w\<lparr>effects := effects w @ [Sent channel msg]\<rparr>"

definition call :: "effect \<Rightarrow> world \<Rightarrow> world" where
  "call e w = w\<lparr>effects := effects w @ [e]\<rparr>"

text \<open>How a function ends: it returns, or an exception leaves it.\<close>

datatype outcome = Returned | Raised py_exn

section \<open>The classifier-output validator\<close>

text \<open>
  \<^verbatim>\<open>validate_llm_response\<close> (app.py, lines 38--90).  \<^verbatim>\<open>json.loads\<close> is the standard
  library's; it is a parameter \<open>loads\<close>, with \<open>None\<close> for the exception it raises on
  text that is not JSON.  Every \<^verbatim>\<open>raise ValueError\<close> of the body is caught by the function's
  own \<^verbatim>\<open>except Exception\<close>, whose result is the same dictionary as the one of
  \<^verbatim>\<open>except json.JSONDecodeError\<close>.
\<close>

definition required_entities :: "string list" where
  "required_entities = [''job_title'', ''experience'', ''skills'', ''job_type'', ''location'']"

definition fallback_response :: pydict where
  "fallback_response =
     [(''intent'', JStr ''not_hiring''),
      (''entities'', JObj [(''job_title'', JNull), (''experience'', JNull), (''skills'', JNull),
                           (''job_type'', JNull), (''location'', JNull)])]"

text \<open>
  The loop \<^verbatim>\<open>for entity in required_entities: if entity not in data["entities"]: ...\<close>
\<close>

fun fill_missing :: "string list \<Rightarrow> pydict \<Rightarrow> pydict" where
  "fill_missing [] es = es"
| "fill_missing (entity # rest) es =
     fill_missing rest (if \<not> dict_has es entity then dict_set es entity JNull else es)"

definition validate_llm_response :: "(string \<Rightarrow> json option) \<Rightarrow> string \<Rightarrow> pydict" where
  "validate_llm_response loads llm_response =
     (case loads llm_response of
        None \<Rightarrow> fallback_response
      | Some (JObj data) \<Rightarrow>
          if \<not> dict_has data ''intent'' then fallback_response
          else if \<not> dict_has data ''entities'' then fallback_response
          else (case dict_get data ''entities'' of
                  JObj es \<Rightarrow> dict_set data ''entities'' (JObj (fill_missing required_entities es))
                | _ \<Rightarrow> fallback_response)
      | Some _ \<Rightarrow> fallback_response)"

section \<open>Re-evaluating a conversation\<close>

text \<open>
  \<^verbatim>\<open>process_conversation\<close> (app.py, lines 92--200).  First the pieces of its hiring branch:
  the first entity of \<^verbatim>\<open>follow_up_order\<close> whose value is \<^verbatim>\<open>None\<close>, the table of questions,
  the two confirmation texts, the call \<^verbatim>\<open>generate_job_description(**entities)\<close> and the
  blocks of the approval message.
\<close>

definition follow_up_order :: "string list" where
  "follow_up_order = [''job_title'', ''experience'', ''skills'', ''job_type'', ''location'']"

definition first_missing_entity :: "pydict \<Rightarrow> string option" where
  "first_missing_entity entities =
     find (\<lambda>entity. dict_get entities entity = JNull) follow_up_order"

definition questions :: "(string \<times> string) list" where
  "questions =
     [(''job_title'', ''What is the job title/role you're hiring for?''),
      (''experience'', ''What is the required level of experience (e.g., 2 years, Senior)?''),
      (''skills'', ''What specific skills are required for this role?''),
      (''job_type'', ''Is this a full-time, part-time, or contract position?''),
      (''location'', ''What is the location for this role (e.g., Remote, specific city)?'')]"

text \<open>\<^verbatim>\<open>{d.get(key, 'N/A')}\<close> inside an f-string\<close>

definition entity_text :: "(json \<Rightarrow> string) \<Rightarrow> pydict \<Rightarrow> string \<Rightarrow> string" where
  "entity_text r d key = py_str r (dict_get_or d key (JStr ''N/A''))"

definition confirmation_text :: "(json \<Rightarrow> string) \<Rightarrow> conversation \<Rightarrow> pydict \<Rightarrow> string" where
  "confirmation_text r state entities =
     (if editing state = Some True then
        (let original = (case original_entities state of None \<Rightarrow> [] | Some d \<Rightarrow> d) in
          pencil @ '' Here are the updated job details:'' @ [CHR 0x0A] @
          ''  '' @ bullet @ '' *Job Title*: '' @ entity_text r entities ''job_title'' @ '' (was: '' @ entity_text r original ''job_title'' @ '')'' @ [CHR 0x0A] @
          ''  '' @ bullet @ '' *Experience*: '' @ entity_text r entities ''experience'' @ '' (was: '' @ entity_text r original ''experience'' @ '')'' @ [CHR 0x0A] @
          ''  '' @ bullet @ '' *Skills*: '' @ entity_text r entities ''skills'' @ '' (was: '' @ entity_text r original ''skills'' @ '')'' @ [CHR 0x0A] @
          ''  '' @ bullet @ '' *Job Type*: '' @ entity_text r entities ''job_type'' @ '' (was: '' @ entity_text r original ''job_type'' @ '')'' @ [CHR 0x0A] @
          ''  '' @ bullet @ '' *Location*: '' @ entity_text r entities ''location'' @ '' (was: '' @ entity_text r original ''location'' @ '')'')
      else
        ''Great! I have all the details. Here's the complete hiring request:'' @ [CHR 0x0A] @
        ''  '' @ bullet @ '' *Job Title*: '' @ entity_text r entities ''job_title'' @ [CHR 0x0A] @
        ''  '' @ bullet @ '' *Experience*: '' @ entity_text r entities ''experience'' @ [CHR 0x0A] @
        ''  '' @ bullet @ '' *Skills*: '' @ entity_text r entities ''skills'' @ [CHR 0x0A] @
        ''  '' @ bullet @ '' *Job Type*: '' @ entity_text r entities ''job_type'' @ [CHR 0x0A] @
        ''  '' @ bullet @ '' *Location*: '' @ entity_text r entities ''location'')"

text \<open>
  A call with \<^verbatim>\<open>**entities\<close> raises \<^verbatim>\<open>TypeError\<close> when the dictionary has a key that is
  not a parameter of the function, or lacks one of its parameters.
\<close>

definition bind_entities :: "pydict \<Rightarrow> py_exn + json \<times> json \<times> json \<times> json \<times> json" where
  "bind_entities entities =
     (if list_ex (\<lambda>key. key \<notin> set required_entities) (map fst entities) then Inl TypeError
      else if list_ex (\<lambda>key. \<not> dict_has entities key) required_entities then Inl TypeError
      else Inr (dict_get entities ''job_title'', dict_get entities ''experience'',
                dict_get entities ''skills'', dict_get entities ''job_type'',
                dict_get entities ''location''))"

definition message_blocks :: "string \<Rightarrow> block list" where
  "message_blocks cleaned_description =
     [Section cleaned_description,
      Actions ''jd_approval_buttons''
        [Button ''Post Job'' (Some ''primary'') ''jd_post_yes'',
         Button ''Draft'' None ''jd_draft'',
         Button ''Edit'' None ''jd_edit'',
         Button ''No'' (Some ''danger'') ''jd_no'']]"

text \<open>
  Lines 142--194: all entities are filled.  In the \<^verbatim>\<open>try\<close> of lines 174--194 the binding of
  \<^verbatim>\<open>**entities\<close> comes first: when it raises, the generator is not entered.
\<close>

definition finalize :: "env \<Rightarrow> string \<Rightarrow> conversation \<Rightarrow> pydict \<Rightarrow> world \<Rightarrow> world \<times> outcome" where
  "finalize E channel_id state entities w =
     (let job_title = dict_get entities ''job_title'' in
      if \<not> py_truthy job_title then
        (chat_postMessage channel_id (Text
           ''I couldn't determine the job title. Could you please specify what role you're hiring for?'') w,
         Returned)
      else case job_title of
        JStr title \<Rightarrow>
          if py_strip title = [] then
            (chat_postMessage channel_id (Text
               ''I couldn't determine the job title. Could you please specify what role you're hiring for?'') w,
             Returned)
          else
            (let w1 = chat_postMessage channel_id
                        (Text (confirmation_text (repr E) state entities)) w;
                 w2 = chat_postMessage channel_id
                        (Text ''Now, I will generate a job description...'') w1
             in case bind_entities entities of
                  Inl e \<Rightarrow>
                    (chat_postMessage channel_id (Text
                       ''Sorry, I encountered an error while generating the job description. Please try again.'') w2,
                     Returned)
                | Inr (job_title, experience, skills, job_type, location) \<Rightarrow>
                    (let w3 = call (Generated entities) w2 in
                     case job_description_agent E job_title experience skills job_type location of
                       Inl e \<Rightarrow>
                         (chat_postMessage channel_id (Text
                            ''Sorry, I encountered an error while generating the job description. Please try again.'') w3,
                          Returned)
                     | Inr job_description \<Rightarrow>
                         (let cleaned_description = remove_double_star job_description;
                              w4 = chat_postMessage channel_id
                                     (Blocks (message_blocks cleaned_description)
                                        ''Job description generated.'') w3
                          in (w4\<lparr>conversation_states := (conversation_states w4)
                                   (channel_id \<mapsto> state\<lparr>final_entities := Some entities\<rparr>)\<rparr>,
                              Returned))))
      | _ \<Rightarrow> (w, Raised AttributeError))"

text \<open>Lines 119--194: the intent is \<^verbatim>\<open>hiring_request\<close>.\<close>

definition hiring_request :: "env \<Rightarrow> string \<Rightarrow> conversation \<Rightarrow> pydict \<Rightarrow> world \<Rightarrow> world \<times> outcome" where
  "hiring_request E channel_id state entities w =
     (case first_missing_entity entities of
        Some entity \<Rightarrow>
          (case map_of questions entity of
             Some question_to_ask \<Rightarrow> (chat_postMessage channel_id (Text question_to_ask) w, Returned)
           | None \<Rightarrow> (w, Raised KeyError))
      | None \<Rightarrow> finalize E channel_id state entities w)"

definition process_conversation :: "env \<Rightarrow> string \<Rightarrow> string \<Rightarrow> world \<Rightarrow> world \<times> outcome" where
  "process_conversation E channel_id user w =
     (case conversation_states w channel_id of
        None \<Rightarrow> (w, Returned)
      | Some state \<Rightarrow>
          if messages state = [] then (w, Returned)
          else
            (let full_conversation_text = join_lines (messages state);
                 w1 = call (Classified full_conversation_text) w
             in case llm_agent E full_conversation_text of
                  Inl e \<Rightarrow> (w1, Raised e)
                | Inr llm_response \<Rightarrow>
                    (let data = validate_llm_response (json_loads E) llm_response in
                     if dict_get data ''intent'' = JStr ''quota_exceeded'' then
                       (chat_postMessage channel_id (Text (warning_sign @
                          '' I've reached my daily API limit. Please try again tomorrow or contact support to upgrade the plan.'')) w1,
                        Returned)
                     else if dict_get data ''intent'' = JStr ''hiring_request''
                             \<and> dict_has data ''entities'' then
                       (case dict_get data ''entities'' of
                          JObj entities \<Rightarrow> hiring_request E channel_id state entities w1
                        | _ \<Rightarrow> (w1, Raised AttributeError))
                     else if dict_get data ''intent'' = JStr ''not_hiring'' then
                       (chat_postMessage channel_id (Text
                          ''I didn't detect a hiring request. If you're looking to hire someone, please let me know the job details!'') w1,
                        Returned)
                     else
                       (chat_postMessage channel_id (Text
                          ''I'm having trouble understanding your request. Could you please clarify if you're looking to hire someone?'') w1,
                        Returned))))"

section \<open>The message handler\<close>

text \<open>
  \<^verbatim>\<open>process_slack_events\<close> (app.py, lines 203--240) on a request: its type, and of the
  event in its payload the type, the user, whether it has a \<^verbatim>\<open>subtype\<close>, the channel and
  the text.  The handler's \<^verbatim>\<open>try\<close> logs an exception of \<^verbatim>\<open>process_conversation\<close> and goes
  on, so what remains of it is the world as the exception left it.
\<close>

record message_request =
  m_type :: string
  m_event_type :: string
  m_user :: string
  m_subtype :: bool
  m_channel :: string
  m_text :: string

definition process_slack_events :: "env \<Rightarrow> message_request \<Rightarrow> world \<Rightarrow> world" where
  "process_slack_events E req w =
     (if m_type req = ''events_api'' \<and> m_event_type req = ''message'' then
        if m_user req = bot_user_id E \<or> m_subtype req then w
        else
          (let channel_id = m_channel req; message_text = m_text req; user = m_user req in
           case conversation_states w channel_id of
             Some state \<Rightarrow>
               if user = user_id state then
                 if message_text \<notin> set (messages state) then
                   fst (process_conversation E channel_id user
                          (w\<lparr>conversation_states := (conversation_states w)
                               (channel_id \<mapsto> state\<lparr>messages := messages state @ [message_text]\<rparr>)\<rparr>))
                 else w
               else
                 fst (process_conversation E channel_id user
                        (w\<lparr>conversation_states := (conversation_states w)
                             (channel_id \<mapsto> new_conversation user message_text)\<rparr>))
           | None \<Rightarrow>
               fst (process_conversation E channel_id user
                      (w\<lparr>conversation_states := (conversation_states w)
                           (channel_id \<mapsto> new_conversation user message_text)\<rparr>)))
      else w)"

section \<open>The button handler\<close>

text \<open>
  \<^verbatim>\<open>handle_interaction\<close> (app.py, lines 243--322) on a request: its type, and of its payload
  the id of the first action, the channel and the user.  The acknowledgement sent to the
  socket at line 245 touches neither dictionary and is left out.
\<close>

record interaction_request =
  i_type :: string
  i_action_id :: string
  i_channel :: string
  i_user :: string

text \<open>\<^verbatim>\<open>del conversation_states[channel_id]\<close> and \<^verbatim>\<open>recently_completed[channel_id] = True\<close>\<close>

definition del_conversation :: "string \<Rightarrow> world \<Rightarrow> world" where
  "del_conversation channel_id w =
     w\<lparr>conversation_states := (conversation_states w)(channel_id := None)\<rparr>"

definition mark_completed :: "string \<Rightarrow> world \<Rightarrow> world" where
  "mark_completed channel_id w =
     w\<lparr>recently_completed := (recently_completed w)(channel_id \<mapsto> True)\<rparr>"

text \<open>Lines 255--271: the action \<^verbatim>\<open>jd_post_yes\<close>.\<close>

definition jd_post_yes :: "env \<Rightarrow> string \<Rightarrow> pydict \<Rightarrow> world \<Rightarrow> world" where
  "jd_post_yes E channel_id entities w =
     (let w1 = call (Posted entities) w in
      case linkedin_poster E entities of
        Inr (success, message) \<Rightarrow>
          if success then
            del_conversation channel_id (mark_completed channel_id
              (chat_postMessage channel_id
                 (Text (party_popper @ '' Job posted! Conversation ended.''))
                 (chat_postMessage channel_id
                    (Text (check_mark @ '' Job posted successfully! Link: '' @ message)) w1)))
          else
            del_conversation channel_id
              (chat_postMessage channel_id
                 (Text (cross_mark @ '' Error posting to LinkedIn: '' @ message)) w1)
      | Inl e \<Rightarrow>
          del_conversation channel_id
            (chat_postMessage channel_id
               (Text (cross_mark @ '' An error occurred while posting to LinkedIn. Please try again.''))
               w1))"

text \<open>
  Lines 273--287: the action \<^verbatim>\<open>jd_draft\<close>.  \<^verbatim>\<open>save_job_to_file\<close> returns \<^verbatim>\<open>True\<close> or \<^verbatim>\<open>False\<close>, so
  the \<^verbatim>\<open>job_id\<close> that the f-string prints on success is the text \<^verbatim>\<open>True\<close>.
\<close>

definition jd_draft :: "env \<Rightarrow> string \<Rightarrow> pydict \<Rightarrow> world \<Rightarrow> world" where
  "jd_draft E channel_id entities w =
     (let w1 = call (Saved entities) w in
      case state_manager E entities of
        Inr job_id \<Rightarrow>
          if job_id then
            del_conversation channel_id (mark_completed channel_id
              (chat_postMessage channel_id
                 (Text (floppy_disk @ '' Draft saved! Conversation ended.''))
                 (chat_postMessage channel_id
                    (Text (check_mark @ '' Job saved as draft. Job ID: ''
                             @ py_str (repr E) (JBool job_id))) w1)))
          else
            del_conversation channel_id
              (chat_postMessage channel_id
                 (Text (cross_mark @ '' An error occurred while saving the draft. Please try again.''))
                 w1)
      | Inl e \<Rightarrow>
          del_conversation channel_id
            (chat_postMessage channel_id
               (Text (cross_mark @ '' An error occurred while saving the draft. Please try again.''))
               w1))"

text \<open>Lines 289--301: the action \<^verbatim>\<open>jd_edit\<close>.\<close>

definition jd_edit :: "string \<Rightarrow> conversation \<Rightarrow> pydict \<Rightarrow> world \<Rightarrow> world" where
  "jd_edit channel_id state entities w =
     (let w1 = chat_postMessage channel_id
                 (Text (pencil @ '' Let's edit the job details. Please provide the updated information:'')) w
      in w1\<lparr>conversation_states := (conversation_states w1)
              (channel_id \<mapsto> state\<lparr>processed := Some False, editing := Some True,
                                     original_entities := Some entities\<rparr>)\<rparr>)"

text \<open>Lines 306--314: the action \<^verbatim>\<open>jd_no\<close>.\<close>

definition jd_no :: "string \<Rightarrow> world \<Rightarrow> world" where
  "jd_no channel_id w =
     del_conversation channel_id
       (chat_postMessage channel_id
          (Text (arrows @ '' Starting fresh. Please provide new job details:''))
          (chat_postMessage channel_id (Text (cross_mark @ '' Job posting cancelled.'')) w))"

definition handle_interaction :: "env \<Rightarrow> interaction_request \<Rightarrow> world \<Rightarrow> world" where
  "handle_interaction E req w =
     (if i_type req = ''interactive'' then
        (let action = i_action_id req; channel_id = i_channel req; user = i_user req in
         case conversation_states w channel_id of
           None \<Rightarrow> w
         | Some state \<Rightarrow>
             if user = user_id state then
               (case final_entities state of
                  None \<Rightarrow>
                    chat_postMessage channel_id
                      (Text ''Sorry, I seem to have lost the context. Please start over.'') w
                | Some entities \<Rightarrow>
                    if entities = [] then
                      chat_postMessage channel_id
                        (Text ''Sorry, I seem to have lost the context. Please start over.'') w
                    else if action = ''jd_post_yes'' then jd_post_yes E channel_id entities w
                    else if action = ''jd_draft'' then jd_draft E channel_id entities w
                    else if action = ''jd_edit'' then jd_edit channel_id state entities w
                    else if action = ''jd_no'' then jd_no channel_id w
                    else del_conversation channel_id w)
             else w)
      else w)"

section \<open>The classifier and the generator\<close>

text \<open>
  The two agents of the repository, \<^verbatim>\<open>llm_agent.py\<close> and \<^verbatim>\<open>job_description_agent.py\<close>, over
  what lies outside it: the text files of the company knowledge (\<^verbatim>\<open>open(path).read()\<close>,
  which returns the text or raises), the search of \<^verbatim>\<open>vertex_search_rag.py\<close> (which returns a
  text on every path), the Gemini model, and from Python's library \<^verbatim>\<open>json.loads\<close>,
  \<^verbatim>\<open>json.dumps\<close>, \<^verbatim>\<open>str.lower\<close>, \<^verbatim>\<open>str\<close> on a value that is not a str, and \<^verbatim>\<open>re.search\<close> with
  the pattern of the experience check.  A prompt is fixed text around a few varying
  parts, so the answer of the model is taken as a function of those parts: the context
  and the query for the classifier, the nine inserted texts for the generator.
\<close>

record services =
  read_text :: "string \<Rightarrow> py_exn + string"
  vertex_search :: "string \<Rightarrow> string"
  classifier_model :: "string \<Rightarrow> string \<Rightarrow> py_exn + string"
  description_model :: "string list \<Rightarrow> py_exn + string"
  parse_json :: "string \<Rightarrow> json option"
  json_dumps :: "json \<Rightarrow> string"
  str_lower :: "string \<Rightarrow> string"
  value_text :: "json \<Rightarrow> string"
  experience_pattern :: "string \<Rightarrow> bool"

text \<open>
  \<^verbatim>\<open>load_company_knowledge\<close> (the same in both files): the three texts, the defaults when a
  file is not found, and any other exception as it is.
\<close>

definition default_knowledge :: "string \<times> string \<times> string" where
  "default_knowledge =
     (''Python, Django, PostgreSQL, React, TypeScript, AWS'',
      ''Junior (0-2 years), Mid-level (2-5 years), Senior (5+ years)'',
      ''Standard job description template'')"

definition load_company_knowledge :: "services \<Rightarrow> py_exn + string \<times> string \<times> string" where
  "load_company_knowledge S =
     (case read_text S ''gdg-cloud/tech_stack.txt'' of
        Inl e \<Rightarrow> if e = FileNotFoundError then Inr default_knowledge else Inl e
      | Inr tech_stack \<Rightarrow>
          (case read_text S ''gdg-cloud/role_levels.txt'' of
             Inl e \<Rightarrow> if e = FileNotFoundError then Inr default_knowledge else Inl e
           | Inr role_levels \<Rightarrow>
               (case read_text S ''gdg-cloud/job_description_backend.txt'' of
                  Inl e \<Rightarrow> if e = FileNotFoundError then Inr default_knowledge else Inl e
                | Inr job_template \<Rightarrow> Inr (tech_stack, role_levels, job_template))))"

subsection \<open>\<^verbatim>\<open>llm_agent.validate_entities\<close>\<close>

text \<open>
  \<^verbatim>\<open>if entities.get(key): ... entities[key].strip()\<close>: nothing for a value that is not true,
  the text for a str, and \<^verbatim>\<open>AttributeError\<close> for any other true value, which has no
  \<^verbatim>\<open>strip\<close>.
\<close>

definition entity_str :: "pydict \<Rightarrow> string \<Rightarrow> py_exn + string option" where
  "entity_str entities key =
     (let v = dict_get entities key in
      if \<not> py_truthy v then Inr None
      else case v of JStr s \<Rightarrow> Inr (Some s) | _ \<Rightarrow> Inl AttributeError)"

definition valid_titles :: "string list" where
  "valid_titles =
     [''developer'', ''engineer'', ''programmer'', ''architect'', ''lead'', ''manager'',
      ''frontend'', ''backend'', ''fullstack'', ''full stack'', ''ui'', ''ux'', ''designer'',
      ''devops'', ''data'', ''analyst'', ''scientist'', ''qa'', ''tester'']"

definition valid_types :: "string list" where
  "valid_types =
     [''full-time'', ''full time'', ''part-time'', ''part time'', ''contract'', ''freelance'',
      ''remote'']"

definition validate_entities :: "services \<Rightarrow> pydict \<Rightarrow> py_exn + pydict" where
  "validate_entities S entities =
     (case entity_str entities ''job_title'' of Inl e \<Rightarrow> Inl e | Inr job_title \<Rightarrow>
      case entity_str entities ''experience'' of Inl e \<Rightarrow> Inl e | Inr experience \<Rightarrow>
      case entity_str entities ''skills'' of Inl e \<Rightarrow> Inl e | Inr skills \<Rightarrow>
      case entity_str entities ''job_type'' of Inl e \<Rightarrow> Inl e | Inr job_type \<Rightarrow>
      case entity_str entities ''location'' of Inl e \<Rightarrow> Inl e | Inr location \<Rightarrow>
      Inr [(''job_title'',
              case job_title of None \<Rightarrow> JNull
              | Some s \<Rightarrow>
                  if list_ex (\<lambda>valid. contains valid (str_lower S (py_strip s))) valid_titles
                  then JStr (py_strip s) else JNull),
           (''experience'',
              case experience of None \<Rightarrow> JNull
              | Some s \<Rightarrow>
                  if experience_pattern S (str_lower S (py_strip s))
                  then JStr (py_strip s) else JNull),
           (''skills'',
              case skills of None \<Rightarrow> JNull
              | Some s \<Rightarrow>
                  if py_len (py_strip s) > 3
                     \<and> \<not> startswith (str_lower S (py_strip s)) ''i need''
                  then JStr (py_strip s) else JNull),
           (''job_type'',
              case job_type of None \<Rightarrow> JNull
              | Some s \<Rightarrow>
                  if list_ex (\<lambda>valid. contains valid (str_lower S (py_strip s))) valid_types
                  then JStr (py_strip s) else JNull),
           (''location'',
              case location of None \<Rightarrow> JNull
              | Some s \<Rightarrow>
                  if py_len (py_strip s) > 2
                     \<and> \<not> list_ex (\<lambda>entity. contains entity (str_lower S (py_strip s)))
                           [''skills:'', ''experience:'', ''job_type:'']
                  then JStr (py_strip s) else JNull)])"

subsection \<open>\<^verbatim>\<open>llm_agent.process_with_adk_agent\<close>\<close>

text \<open>The dictionary \<^verbatim>\<open>{"intent": intent, "entities": {the five keys, each None}}\<close>\<close>

definition reply_with :: "string \<Rightarrow> json" where
  "reply_with intent =
     JObj [(''intent'', JStr intent),
           (''entities'', JObj [(''job_title'', JNull), (''experience'', JNull),
                                (''skills'', JNull), (''job_type'', JNull),
                                (''location'', JNull)])]"

definition simple_hiring_detection :: "services \<Rightarrow> string \<Rightarrow> bool" where
  "simple_hiring_detection S text =
     list_ex (\<lambda>keyword. contains keyword (str_lower S text))
       [''hiring'', ''hire'', ''looking for'', ''need'', ''recruiting'', ''job opening'']"

text \<open>Lines 223--231: the markdown fences around the answer are removed.\<close>

definition clean_response :: "string \<Rightarrow> string" where
  "clean_response response_text =
     (let cleaned = py_strip response_text;
          cleaned = (if startswith cleaned ''```json'' then drop 7 cleaned else cleaned);
          cleaned = (if startswith cleaned ''```'' then drop 3 cleaned else cleaned);
          cleaned = (if endswith cleaned ''```'' then take (length cleaned - 3) cleaned
                     else cleaned)
      in py_strip cleaned)"

text \<open>
  Lines 221--259, the inner \<^verbatim>\<open>try\<close>: the data to return, or the exception that leaves it.
  A text that is not JSON gives the \<^verbatim>\<open>not_hiring\<close> dictionary.  \<^verbatim>\<open>"intent" not in data\<close> is
  a test of keys on a dict, of elements on a list and of substrings on a str, and raises
  \<^verbatim>\<open>TypeError\<close> on anything else; \<^verbatim>\<open>data["intent"]\<close> raises \<^verbatim>\<open>TypeError\<close> on a list and on a str;
  \<^verbatim>\<open>entities.get\<close> raises \<^verbatim>\<open>AttributeError\<close> when the entities are not a dict.
\<close>

definition validate_response :: "services \<Rightarrow> string \<Rightarrow> py_exn + json" where
  "validate_response S response_text =
     (case parse_json S (clean_response response_text) of
        None \<Rightarrow> Inr (reply_with ''not_hiring'')
      | Some (JObj data) \<Rightarrow>
          if \<not> dict_has data ''intent'' \<or> \<not> dict_has data ''entities'' then Inl ValueError
          else if dict_get data ''intent'' = JStr ''hiring_request'' then
            (case dict_get data ''entities'' of
               JObj entities \<Rightarrow>
                 (case validate_entities S entities of
                    Inl e \<Rightarrow> Inl e
                  | Inr validated \<Rightarrow> Inr (JObj (dict_set data ''entities'' (JObj validated))))
             | _ \<Rightarrow> Inl AttributeError)
          else Inr (JObj data)
      | Some (JArr xs) \<Rightarrow>
          if JStr ''intent'' \<notin> set xs \<or> JStr ''entities'' \<notin> set xs then Inl ValueError
          else Inl TypeError
      | Some (JStr s) \<Rightarrow>
          if \<not> contains ''intent'' s \<or> \<not> contains ''entities'' s then Inl ValueError
          else Inl TypeError
      | Some _ \<Rightarrow> Inl TypeError)"

text \<open>
  Line 265: \<^verbatim>\<open>"quota" in str(e).lower() or "429" in str(e)\<close>.  An exception of the model
  call carries its message; the messages of the exceptions raised inside the function
  (no attribute \<^verbatim>\<open>get\<close> or \<^verbatim>\<open>strip\<close>, not iterable, indices must be integers,
  \<^verbatim>\<open>Invalid response structure\<close>) have neither text in them.
\<close>

definition quota_error :: "services \<Rightarrow> py_exn \<Rightarrow> bool" where
  "quota_error S e =
     (case e of
        CollaboratorError message \<Rightarrow>
          contains ''quota'' (str_lower S message) \<or> contains ''429'' message
      | _ \<Rightarrow> False)"

text \<open>
  The dictionary that \<^verbatim>\<open>process_with_adk_agent\<close> serialises, and the function itself, which
  returns its \<^verbatim>\<open>json.dumps\<close>.  The knowledge is loaded before the \<^verbatim>\<open>try\<close>, so an exception
  of it leaves the function.
\<close>

definition classification :: "services \<Rightarrow> string \<Rightarrow> py_exn + json" where
  "classification S query =
     (case load_company_knowledge S of
        Inl e \<Rightarrow> Inl e
      | Inr (tech_stack, role_levels, job_template) \<Rightarrow>
          (let rag_context = vertex_search S query;
               context_parts =
                 (if rag_context \<noteq> [] then [''Company Knowledge: '' @ rag_context] else [])
                 @ [''Tech Stack: '' @ tech_stack, ''Role Levels: '' @ role_levels];
               full_context = py_join [CHR 0x0A, CHR 0x0A] context_parts
           in case (case classifier_model S full_context query of
                      Inl e \<Rightarrow> Inl e
                    | Inr text \<Rightarrow> validate_response S (py_strip text)) of
                Inr data \<Rightarrow> Inr data
              | Inl e \<Rightarrow>
                  if quota_error S e then Inr (reply_with ''quota_exceeded'')
                  else Inr (reply_with (if simple_hiring_detection S query
                                        then ''hiring_request'' else ''not_hiring''))))"

definition process_with_adk_agent :: "services \<Rightarrow> string \<Rightarrow> py_exn + string" where
  "process_with_adk_agent S query =
     (case classification S query of
        Inl e \<Rightarrow> Inl e
      | Inr data \<Rightarrow> Inr (json_dumps S data))"

subsection \<open>\<^verbatim>\<open>job_description_agent.generate_job_description\<close>\<close>

text \<open>
  The characters outside ASCII of the fallback text: the rocket, the pushpin, the round
  pushpin, the alarm clock, the brain and the hammer and wrench.
\<close>

definition rocket :: string where
  "rocket = [CHR 0xF0, CHR 0x9F, CHR 0x9A, CHR 0x80]"

definition pushpin :: string where
  "pushpin = [CHR 0xF0, CHR 0x9F, CHR 0x93, CHR 0x8C]"

definition round_pushpin :: string where
  "round_pushpin = [CHR 0xF0, CHR 0x9F, CHR 0x93, CHR 0x8D]"

definition alarm_clock :: string where
  "alarm_clock = [CHR 0xE2, CHR 0x8F, CHR 0xB0]"

definition brain :: string where
  "brain = [CHR 0xF0, CHR 0x9F, CHR 0xA7, CHR 0xA0]"

definition hammer_and_wrench :: string where
  "hammer_and_wrench = [CHR 0xF0, CHR 0x9F, CHR 0x9B, CHR 0xA0]"

text \<open>
  The knowledge is loaded before the \<^verbatim>\<open>try\<close>.  Inside it the answer of the model is
  stripped and cut to 2500 characters; any exception there gives the fallback text.
\<close>

definition generate_job_description ::
  "services \<Rightarrow> json \<Rightarrow> json \<Rightarrow> json \<Rightarrow> json \<Rightarrow> json \<Rightarrow> py_exn + string" where
  "generate_job_description S job_title experience skills job_type location =
     (case load_company_knowledge S of
        Inl e \<Rightarrow> Inl e
      | Inr (tech_stack, role_levels, job_template) \<Rightarrow>
          (let str = py_str (value_text S);
               search_query = str job_title @ '' '' @ str skills @ '' '' @ str experience;
               rag_context = vertex_search S search_query
           in case description_model S
                     [tech_stack, role_levels, job_template,
                      if rag_context \<noteq> [] then rag_context
                      else ''No additional context available.'',
                      str job_title, str experience, str skills, str job_type, str location] of
                Inr text \<Rightarrow>
                  (let description = py_strip text in
                   Inr (if py_len description > 2500 then py_take 2500 description @ ''...''
                        else description))
              | Inl e \<Rightarrow>
                  Inr (rocket @ '' We're Hiring!'' @ [CHR 0x0A, CHR 0x0A]
                       @ pushpin @ '' '' @ str job_title @ [CHR 0x0A]
                       @ round_pushpin @ '' Location: '' @ str location @ [CHR 0x0A]
                       @ alarm_clock @ '' Type: '' @ str job_type @ [CHR 0x0A]
                       @ brain @ '' Experience: '' @ str experience @ [CHR 0x0A]
                       @ hammer_and_wrench @ '' Skills: '' @ str skills @ [CHR 0x0A, CHR 0x0A]
                       @ ''We're looking for a talented '' @ str job_title
                       @ '' to join our team. If you have the required experience and skills, we'd love to hear from you!''
                       @ [CHR 0x0A, CHR 0x0A] @ ''#Hiring #JobOpening #Careers'')))"

section \<open>Worked examples: sample collaborators\<close>

text \<open>
  The entities of the worked examples, and the dictionary of a hiring request with given
  entities.
\<close>

definition sample_entities :: pydict where
  "sample_entities =
     [(''job_title'', JStr ''Backend developer''), (''experience'', JStr ''3 years''),
      (''skills'', JStr ''Node.js''), (''job_type'', JStr ''full-time''),
      (''location'', JStr ''Remote'')]"

definition title_only_entities :: pydict where
  "title_only_entities =
     [(''job_title'', JStr ''Backend developer''), (''experience'', JNull),
      (''skills'', JNull), (''job_type'', JNull), (''location'', JNull)]"

definition senior_entities :: pydict where
  "senior_entities =
     [(''job_title'', JStr ''Backend developer''), (''experience'', JStr ''Senior''),
      (''skills'', JStr ''Node.js''), (''job_type'', JStr ''full-time''),
      (''location'', JStr ''Remote'')]"

definition hiring_reply :: "pydict \<Rightarrow> json" where
  "hiring_reply entities =
     JObj [(''intent'', JStr ''hiring_request''), (''entities'', JObj entities)]"

text \<open>
  Two tables standing for \<^verbatim>\<open>json.loads\<close> and \<^verbatim>\<open>json.dumps\<close> on the texts and values that
  the worked examples use.  A text that is in the first table parses to the value beside
  it, and any other text is not JSON; the second table writes the three hiring requests
  as the texts that the first one reads back.
\<close>

definition sample_loads :: "string \<Rightarrow> json option" where
  "sample_loads = map_of
     [(''entities is a list'',
         JObj [(''intent'', JStr ''hiring_request''), (''entities'', JArr [])]),
      (''title only'', hiring_reply title_only_entities),
      (''all filled'', hiring_reply sample_entities),
      (''senior now'', hiring_reply senior_entities),
      (''not hiring'', reply_with ''not_hiring''),
      (''blank title'',
         hiring_reply ((''job_title'', JStr ''  '') # tl sample_entities)),
      (''empty title'',
         JObj [(''intent'', JStr ''hiring_request''),
               (''entities'', JObj [(''job_title'', JStr []), (''experience'', JInt 3)])])]"

definition sample_dumps :: "json \<Rightarrow> string" where
  "sample_dumps data =
     (if data = hiring_reply title_only_entities then ''title only''
      else if data = hiring_reply sample_entities then ''all filled''
      else if data = hiring_reply senior_entities then ''senior now''
      else ''not hiring'')"

text \<open>
  What lies outside the repository in the worked examples: no knowledge file is found and
  the search finds nothing; the model answers three conversations with a hiring request
  and anything else with an excuse, and writes one job description; \<^verbatim>\<open>str.lower\<close> and the
  experience pattern are tables on the texts that occur.
\<close>

definition sample_model :: "string \<Rightarrow> string \<Rightarrow> py_exn + string" where
  "sample_model full_context query =
     Inr (case map_of
            [(''I need a backend developer'', ''title only''),
             (''I need a backend developer'' @ [CHR 0x0A] @ ''3 years, Node.js, full-time, remote'',
                ''all filled''),
             (''I need a backend developer'' @ [CHR 0x0A] @ ''3 years, Node.js, full-time, remote''
                @ [CHR 0x0A] @ ''make it senior'', ''senior now'')] query of
            Some answer \<Rightarrow> answer
          | None \<Rightarrow> ''Sorry, I cannot answer that.'')"

definition sample_lower :: "string \<Rightarrow> string" where
  "sample_lower s =
     (case map_of
        [(''Backend developer'', ''backend developer''), (''Senior'', ''senior''),
         (''Node.js'', ''node.js''), (''Remote'', ''remote'')] s of
        Some l \<Rightarrow> l
      | None \<Rightarrow> s)"

definition sample_experience_pattern :: "string \<Rightarrow> bool" where
  "sample_experience_pattern s = (s = ''3 years'' \<or> s = ''senior'')"

definition sample_services :: services where
  "sample_services =
     \<lparr>read_text = (\<lambda>path. Inl FileNotFoundError), vertex_search = (\<lambda>query. []),
      classifier_model = sample_model,
      description_model = (\<lambda>parts. Inr ''**We are hiring** a Backend developer''),
      parse_json = sample_loads, json_dumps = sample_dumps, str_lower = sample_lower,
      value_text = (\<lambda>v. ''?''), experience_pattern = sample_experience_pattern\<rparr>"

text \<open>
  The collaborators of the worked examples: the classifier and the generator of the
  repository over these services, a poster and a draft store that succeed, and their
  failing counterparts.
\<close>

definition sample_llm_agent :: "string \<Rightarrow> py_exn + string" where
  "sample_llm_agent = process_with_adk_agent sample_services"

definition sample_generator :: "json \<Rightarrow> json \<Rightarrow> json \<Rightarrow> json \<Rightarrow> json \<Rightarrow> py_exn + string" where
  "sample_generator = generate_job_description sample_services"

definition sample_poster :: "pydict \<Rightarrow> py_exn + bool \<times> string" where
  "sample_poster entities = Inr (True, ''https://www.linkedin.com/feed/update/urn:li:share:7'')"

definition failing_poster :: "pydict \<Rightarrow> py_exn + bool \<times> string" where
  "failing_poster entities = Inr (False, ''Failed: 401 - Unauthorized'')"

definition sample_store :: "pydict \<Rightarrow> py_exn + bool" where
  "sample_store entities = Inr True"

definition failing_store :: "pydict \<Rightarrow> py_exn + bool" where
  "failing_store entities = Inr False"

definition sample_env :: env where
  "sample_env =
     \<lparr>bot_user_id = ''UBOT'', json_loads = sample_loads, repr = (\<lambda>v. ''?''),
      llm_agent = sample_llm_agent, job_description_agent = sample_generator,
      linkedin_poster = sample_poster, state_manager = sample_store\<rparr>"

definition failing_env :: env where
  "failing_env = sample_env\<lparr>linkedin_poster := failing_poster, state_manager := failing_store\<rparr>"


text \<open>
  A world whose only conversation is the given one, in channel \<^verbatim>\<open>C1\<close>; a conversation of
  user \<^verbatim>\<open>U1\<close> with a given history; the same once its entities are final; a message and a
  button press in that channel.
\<close>

definition sample_world :: "conversation \<Rightarrow> world" where
  "sample_world state =
     \<lparr>conversation_states = [''C1'' \<mapsto> state], recently_completed = Map.empty, effects = []\<rparr>"

definition collecting :: "string list \<Rightarrow> conversation" where
  "collecting history =
     \<lparr>user_id = ''U1'', messages = history, final_entities = None, processed = None,
      editing = None, original_entities = None\<rparr>"

definition confirming :: conversation where
  "confirming =
     (collecting [''I need a backend developer'', ''3 years, Node.js, full-time, remote''])
       \<lparr>final_entities := Some sample_entities\<rparr>"

definition sample_message :: "string \<Rightarrow> string \<Rightarrow> message_request" where
  "sample_message user text =
     \<lparr>m_type = ''events_api'', m_event_type = ''message'', m_user = user, m_subtype = False,
      m_channel = ''C1'', m_text = text\<rparr>"

definition sample_press :: "string \<Rightarrow> string \<Rightarrow> interaction_request" where
  "sample_press user action =
     \<lparr>i_type = ''interactive'', i_action_id = action, i_channel = ''C1'', i_user = user\<rparr>"

section \<open>Properties of the validator\<close>

lemma validate_not_json:
  "loads s = None \<Longrightarrow> validate_llm_response loads s = fallback_response"
  by (simp add: validate_llm_response_def)

lemma validate_not_dict:
  "loads s = Some v \<Longrightarrow> \<not> is_dict v \<Longrightarrow> validate_llm_response loads s = fallback_response"
  by (cases v) (simp_all add: validate_llm_response_def)

lemma validate_missing_field:
  "loads s = Some (JObj d) \<Longrightarrow> \<not> dict_has d ''intent'' \<or> \<not> dict_has d ''entities'' \<Longrightarrow>
   validate_llm_response loads s = fallback_response"
  by (auto simp add: validate_llm_response_def)

lemma validate_entities_not_dict:
  "loads s = Some (JObj d) \<Longrightarrow> \<not> is_dict (dict_get d ''entities'') \<Longrightarrow>
   validate_llm_response loads s = fallback_response"
  by (cases "dict_get d ''entities''") (simp_all add: validate_llm_response_def)

text \<open>
  Claim C2.  Whatever the classifier returned, the validator yields a dictionary (the
  model is a total function: every exception of the body is caught inside it).  When the
  text is not JSON, or its top level is not an object, or the object has no \<^verbatim>\<open>intent\<close> or
  no \<^verbatim>\<open>entities\<close> field, or \<^verbatim>\<open>entities\<close> is not an object, that dictionary is exactly
  \<^verbatim>\<open>{intent: not_hiring, entities: {the five keys, each None}}\<close>.
\<close>

theorem validate_llm_response_malformed:
  assumes "loads s = None
         \<or> (\<exists>v. loads s = Some v \<and> \<not> is_dict v)
         \<or> (\<exists>d. loads s = Some (JObj d) \<and>
                (\<not> dict_has d ''intent'' \<or> \<not> dict_has d ''entities''
                 \<or> \<not> is_dict (dict_get d ''entities'')))"
  shows "validate_llm_response loads s =
           [(''intent'', JStr ''not_hiring''),
            (''entities'', JObj [(''job_title'', JNull), (''experience'', JNull),
                                 (''skills'', JNull), (''job_type'', JNull),
                                 (''location'', JNull)])]"
proof -
  have "validate_llm_response loads s = fallback_response"
    using assms
  proof (elim disjE exE conjE)
    assume "loads s = None"
    then show ?thesis by (rule validate_not_json)
  next
    fix v assume "loads s = Some v" "\<not> is_dict v"
    then show ?thesis by (rule validate_not_dict)
  next
    fix d assume "loads s = Some (JObj d)" "\<not> dict_has d ''intent''"
    then show ?thesis by (simp add: validate_missing_field)
  next
    fix d assume "loads s = Some (JObj d)" "\<not> dict_has d ''entities''"
    then show ?thesis by (simp add: validate_missing_field)
  next
    fix d assume "loads s = Some (JObj d)" "\<not> is_dict (dict_get d ''entities'')"
    then show ?thesis by (rule validate_entities_not_dict)
  qed
  then show ?thesis by (simp add: fallback_response_def)
qed

theorem validate_llm_response_malformed_witness:
  "sample_loads ''entities is a list''
     = Some (JObj [(''intent'', JStr ''hiring_request''), (''entities'', JArr [])])
   \<and> \<not> is_dict (dict_get [(''intent'', JStr ''hiring_request''), (''entities'', JArr [])] ''entities'')
   \<and> validate_llm_response sample_loads ''entities is a list''
       = [(''intent'', JStr ''not_hiring''),
          (''entities'', JObj [(''job_title'', JNull), (''experience'', JNull),
                               (''skills'', JNull), (''job_type'', JNull),
                               (''location'', JNull)])]"
proof -
  let ?d = "[(''intent'', JStr ''hiring_request''), (''entities'', JArr [])]"
  have parsed: "sample_loads ''entities is a list'' = Some (JObj ?d)"
    by (simp add: sample_loads_def)
  have bad: "\<not> is_dict (dict_get ?d ''entities'')"
    by (simp add: dict_get_def dict_get_or_def)
  from parsed bad
  have "sample_loads ''entities is a list'' = None
         \<or> (\<exists>v. sample_loads ''entities is a list'' = Some v \<and> \<not> is_dict v)
         \<or> (\<exists>d. sample_loads ''entities is a list'' = Some (JObj d) \<and>
                (\<not> dict_has d ''intent'' \<or> \<not> dict_has d ''entities''
                 \<or> \<not> is_dict (dict_get d ''entities'')))"
    by blast
  then have "validate_llm_response sample_loads ''entities is a list''
       = [(''intent'', JStr ''not_hiring''),
          (''entities'', JObj [(''job_title'', JNull), (''experience'', JNull),
                               (''skills'', JNull), (''job_type'', JNull),
                               (''location'', JNull)])]"
    by (rule validate_llm_response_malformed)
  with parsed bad show ?thesis by blast
qed

lemma map_of_dict_set: "map_of (dict_set d k v) = (map_of d)(k \<mapsto> v)"
  by (induction d) (auto simp add: fun_eq_iff)

lemma map_of_fill_missing:
  "map_of (fill_missing ks es) k
     = (if k \<in> set ks \<and> \<not> dict_has es k then Some JNull else map_of es k)"
proof (induction ks arbitrary: es)
  case Nil
  then show ?case by simp
next
  case (Cons key ks)
  show ?case
    by (simp add: Cons.IH map_of_dict_set dict_has_def)
qed

lemma validate_accepted:
  assumes "loads s = Some (JObj data)" "dict_has data ''intent''"
    and "dict_get data ''entities'' = JObj es"
  shows "validate_llm_response loads s
         = dict_set data ''entities'' (JObj (fill_missing required_entities es))"
proof -
  from assms(3) have "dict_has data ''entities''"
    by (auto simp add: dict_has_def dict_get_def dict_get_or_def split: option.splits)
  with assms show ?thesis by (simp add: validate_llm_response_def)
qed

text \<open>
  Claim C9, as amended.  When the classifier's reply is a JSON object with an \<^verbatim>\<open>intent\<close>
  and with \<^verbatim>\<open>entities\<close> that are an object, the validator returns that object with its
  entities completed: each of the five keys is there; a key that the reply lacked has the
  value \<^verbatim>\<open>None\<close>; and every key that the reply had keeps the value it had there, whatever
  that value is.
\<close>

theorem validate_llm_response_entities:
  assumes "loads s = Some (JObj data)" "dict_has data ''intent''"
    and "dict_get data ''entities'' = JObj es"
  shows "\<exists>es'. dict_get (validate_llm_response loads s) ''entities'' = JObj es'
           \<and> dict_get (validate_llm_response loads s) ''intent'' = dict_get data ''intent''
           \<and> (\<forall>k\<in>set required_entities. dict_has es' k)
           \<and> (\<forall>k\<in>set required_entities. \<not> dict_has es k \<longrightarrow> map_of es' k = Some JNull)
           \<and> (\<forall>k. dict_has es k \<longrightarrow> map_of es' k = map_of es k)
           \<and> (\<forall>k. k \<notin> set required_entities \<longrightarrow> map_of es' k = map_of es k)"
proof -
  let ?es' = "fill_missing required_entities es"
  have res: "validate_llm_response loads s = dict_set data ''entities'' (JObj ?es')"
    using assms by (rule validate_accepted)
  have "dict_get (validate_llm_response loads s) ''entities'' = JObj ?es'"
    "dict_get (validate_llm_response loads s) ''intent'' = dict_get data ''intent''"
    by (simp_all add: res dict_get_def dict_get_or_def map_of_dict_set)
  moreover have "\<forall>k\<in>set required_entities. dict_has ?es' k"
    "\<forall>k\<in>set required_entities. \<not> dict_has es k \<longrightarrow> map_of ?es' k = Some JNull"
    "\<forall>k. dict_has es k \<longrightarrow> map_of ?es' k = map_of es k"
    "\<forall>k. k \<notin> set required_entities \<longrightarrow> map_of ?es' k = map_of es k"
    by (simp_all add: map_of_fill_missing dict_has_def)
  ultimately show ?thesis by blast
qed

lemma sample_reply_empty_title:
  "validate_llm_response sample_loads ''empty title''
     = [(''intent'', JStr ''hiring_request''),
        (''entities'', JObj [(''job_title'', JStr []), (''experience'', JInt 3),
                             (''skills'', JNull), (''job_type'', JNull), (''location'', JNull)])]"
  by (simp add: validate_llm_response_def sample_loads_def dict_has_def dict_get_def
      dict_get_or_def required_entities_def)

theorem validate_llm_response_entities_witness:
  "sample_loads ''empty title''
     = Some (JObj [(''intent'', JStr ''hiring_request''),
                   (''entities'', JObj [(''job_title'', JStr []), (''experience'', JInt 3)])])
   \<and> dict_has [(''intent'', JStr ''hiring_request''),
               (''entities'', JObj [(''job_title'', JStr []), (''experience'', JInt 3)])] ''intent''
   \<and> dict_get [(''intent'', JStr ''hiring_request''),
               (''entities'', JObj [(''job_title'', JStr []), (''experience'', JInt 3)])] ''entities''
       = JObj [(''job_title'', JStr []), (''experience'', JInt 3)]
   \<and> (\<exists>es'. dict_get (validate_llm_response sample_loads ''empty title'') ''entities'' = JObj es'
          \<and> dict_has es' ''skills'' \<and> map_of es' ''skills'' = Some JNull
          \<and> map_of es' ''job_title'' = Some (JStr [])
          \<and> map_of es' ''experience'' = Some (JInt 3)
          \<and> map_of es' ''salary'' = None)"
proof -
  let ?es = "[(''job_title'', JStr []), (''experience'', JInt 3)]"
  let ?data = "[(''intent'', JStr ''hiring_request''), (''entities'', JObj ?es)]"
  have a: "sample_loads ''empty title'' = Some (JObj ?data)"
    "dict_has ?data ''intent''" "dict_get ?data ''entities'' = JObj ?es"
    by (simp_all add: sample_loads_def dict_has_def dict_get_def dict_get_or_def)
  have b: "''skills'' \<in> set required_entities" "\<not> dict_has ?es ''skills''"
    "dict_has ?es ''job_title''" "dict_has ?es ''experience''"
    "map_of ?es ''job_title'' = Some (JStr [])" "map_of ?es ''experience'' = Some (JInt 3)"
    "''salary'' \<notin> set required_entities" "map_of ?es ''salary'' = None"
    by (simp_all add: required_entities_def dict_has_def)
  from validate_llm_response_entities [where loads = sample_loads and s = "''empty title''", OF a]
  obtain es' where
    es': "dict_get (validate_llm_response sample_loads ''empty title'') ''entities'' = JObj es'"
      "\<forall>k\<in>set required_entities. dict_has es' k"
      "\<forall>k\<in>set required_entities. \<not> dict_has ?es k \<longrightarrow> map_of es' k = Some JNull"
      "\<forall>k. dict_has ?es k \<longrightarrow> map_of es' k = map_of ?es k"
      "\<forall>k. k \<notin> set required_entities \<longrightarrow> map_of es' k = map_of ?es k"
    by blast
  from es'(2) b(1) have "dict_has es' ''skills''" by blast
  moreover from es'(3) b(1,2) have "map_of es' ''skills'' = Some JNull" by blast
  moreover from es'(4) b(3,5) have "map_of es' ''job_title'' = Some (JStr [])" by simp
  moreover from es'(4) b(4,6) have "map_of es' ''experience'' = Some (JInt 3)" by simp
  moreover from es'(5) b(7,8) have "map_of es' ''salary'' = None" by simp
  ultimately show ?thesis using a es'(1) by blast
qed

text \<open>
  The claim as it was written says that a malformed value, such as an empty string or a
  value that is not a string, is replaced by \<^verbatim>\<open>None\<close>.  The validator accepts this reply
  and keeps both: the job title is the empty string and the experience is the number 3.
\<close>

theorem empty_string_kept_counterexample:
  "validate_llm_response sample_loads ''empty title''
     = [(''intent'', JStr ''hiring_request''),
        (''entities'', JObj [(''job_title'', JStr []), (''experience'', JInt 3),
                             (''skills'', JNull), (''job_type'', JNull), (''location'', JNull)])]
   \<and> dict_get [(''job_title'', JStr []), (''experience'', JInt 3),
               (''skills'', JNull), (''job_type'', JNull), (''location'', JNull)] ''job_title''
       = JStr []
   \<and> dict_get [(''job_title'', JStr []), (''experience'', JInt 3),
               (''skills'', JNull), (''job_type'', JNull), (''location'', JNull)] ''experience''
       = JInt 3"
  using sample_reply_empty_title by (simp add: dict_get_def dict_get_or_def)

section \<open>Properties of the message handler\<close>

text \<open>
  What a re-evaluation can do to the world: it adds effects, the first of which is the
  classifier call on the joined history; it leaves \<^verbatim>\<open>recently_completed\<close> alone; and of
  the conversations it changes at most the one of its channel, by storing its
  \<^verbatim>\<open>final_entities\<close>.
\<close>

lemma finalize_shape:
  "\<exists>rest. effects (fst (finalize E c st es w)) = effects w @ rest"
  "recently_completed (fst (finalize E c st es w)) = recently_completed w"
  "conversation_states (fst (finalize E c st es w)) = conversation_states w
   \<or> conversation_states (fst (finalize E c st es w))
       = (conversation_states w)(c \<mapsto> st\<lparr>final_entities := Some es\<rparr>)"
  by (auto simp add: finalize_def chat_postMessage_def call_def Let_def
      split: json.splits sum.splits)

lemma hiring_request_shape:
  "\<exists>rest. effects (fst (hiring_request E c st es w)) = effects w @ rest"
  "recently_completed (fst (hiring_request E c st es w)) = recently_completed w"
  "conversation_states (fst (hiring_request E c st es w)) = conversation_states w
   \<or> conversation_states (fst (hiring_request E c st es w))
       = (conversation_states w)(c \<mapsto> st\<lparr>final_entities := Some es\<rparr>)"
  using finalize_shape [of E c st es w]
  by (auto simp add: hiring_request_def chat_postMessage_def split: option.splits)

lemma process_conversation_shape:
  assumes "conversation_states w c = Some st" "messages st \<noteq> []"
  shows "\<exists>rest. effects (fst (process_conversation E c u w))
            = effects w @ Classified (join_lines (messages st)) # rest"
    and "recently_completed (fst (process_conversation E c u w)) = recently_completed w"
    and "conversation_states (fst (process_conversation E c u w)) = conversation_states w
         \<or> (\<exists>es. conversation_states (fst (process_conversation E c u w))
               = (conversation_states w)(c \<mapsto> st\<lparr>final_entities := Some es\<rparr>))"
proof -
  let ?w1 = "call (Classified (join_lines (messages st))) w"
  have w1: "effects ?w1 = effects w @ [Classified (join_lines (messages st))]"
    "recently_completed ?w1 = recently_completed w"
    "conversation_states ?w1 = conversation_states w"
    by (simp_all add: call_def)
  note hr = hiring_request_shape [of E c st _ ?w1]
  show "\<exists>rest. effects (fst (process_conversation E c u w))
            = effects w @ Classified (join_lines (messages st)) # rest"
    using assms hr(1) w1
    by (auto simp add: process_conversation_def Let_def chat_postMessage_def
        split: sum.splits json.splits)
  show "recently_completed (fst (process_conversation E c u w)) = recently_completed w"
    using assms hr(2) w1
    by (auto simp add: process_conversation_def Let_def chat_postMessage_def
        split: sum.splits json.splits)
  show "conversation_states (fst (process_conversation E c u w)) = conversation_states w
         \<or> (\<exists>es. conversation_states (fst (process_conversation E c u w))
               = (conversation_states w)(c \<mapsto> st\<lparr>final_entities := Some es\<rparr>))"
    using assms hr(3) w1
    by (auto simp add: process_conversation_def Let_def chat_postMessage_def
        split: sum.splits json.splits)
qed

lemma process_slack_events_known_text:
  assumes "conversation_states w (m_channel req) = Some state"
    and "m_user req = user_id state"
    and "m_text req \<in> set (messages state)"
  shows "process_slack_events E req w = w"
  using assms by (simp add: process_slack_events_def Let_def)

text \<open>
  Claim C10.  A message of the stored owner whose text is already anywhere in the history
  of the conversation, not only at its end, changes nothing: the handler returns the
  world it was given, with the same conversations, the same effects (so no classifier
  call and no message sent) and the same completion marks.
\<close>

theorem repeated_text_is_ignored:
  assumes "conversation_states w (m_channel req) = Some state"
    and "m_user req = user_id state"
    and "m_text req \<in> set (messages state)"
  shows "process_slack_events E req w = w
         \<and> conversation_states (process_slack_events E req w) (m_channel req) = Some state
         \<and> effects (process_slack_events E req w) = effects w"
  using assms process_slack_events_known_text [OF assms, of E] by simp

theorem repeated_text_is_ignored_witness:
  "conversation_states (sample_world (collecting [''I need a backend developer'', ''3 years'']))
       (m_channel (sample_message ''U1'' ''I need a backend developer''))
     = Some (collecting [''I need a backend developer'', ''3 years''])
   \<and> m_user (sample_message ''U1'' ''I need a backend developer'')
       = user_id (collecting [''I need a backend developer'', ''3 years''])
   \<and> m_text (sample_message ''U1'' ''I need a backend developer'')
       \<in> set (messages (collecting [''I need a backend developer'', ''3 years'']))
   \<and> m_text (sample_message ''U1'' ''I need a backend developer'')
       \<noteq> last (messages (collecting [''I need a backend developer'', ''3 years'']))
   \<and> process_slack_events sample_env (sample_message ''U1'' ''I need a backend developer'')
         (sample_world (collecting [''I need a backend developer'', ''3 years'']))
       = sample_world (collecting [''I need a backend developer'', ''3 years''])"
proof -
  let ?st = "collecting [''I need a backend developer'', ''3 years'']"
  let ?req = "sample_message ''U1'' ''I need a backend developer''"
  have a: "conversation_states (sample_world ?st) (m_channel ?req) = Some ?st"
    by (simp add: sample_world_def sample_message_def)
  have b: "m_user ?req = user_id ?st"
    by (simp add: sample_message_def collecting_def)
  have c: "m_text ?req \<in> set (messages ?st)"
    by (simp add: sample_message_def collecting_def)
  have d: "m_text ?req \<noteq> last (messages ?st)"
    by (simp add: sample_message_def collecting_def)
  from repeated_text_is_ignored [OF a b c, of sample_env] a b c d show ?thesis by blast
qed


text \<open>
  Claim C4, as amended.  For a message of the stored owner that the handler accepts, the
  text is appended to the history and the classifier is called on the newline-joined
  history exactly when the text occurs nowhere in the stored history; a text that occurs
  anywhere in it, at the end or earlier, leaves the world as it was.
\<close>

theorem owner_message_appended_iff_new:
  assumes "m_type req = ''events_api''" "m_event_type req = ''message''"
    and "m_user req \<noteq> bot_user_id E" "\<not> m_subtype req"
    and "conversation_states w (m_channel req) = Some state"
    and "m_user req = user_id state"
  shows "(m_text req \<notin> set (messages state) \<longrightarrow>
           (\<exists>state' rest.
              conversation_states (process_slack_events E req w) (m_channel req) = Some state'
              \<and> messages state' = messages state @ [m_text req]
              \<and> effects (process_slack_events E req w)
                  = effects w @ Classified (join_lines (messages state @ [m_text req])) # rest))
       \<and> (m_text req \<in> set (messages state) \<longrightarrow> process_slack_events E req w = w)"
proof (intro conjI impI)
  assume new: "m_text req \<notin> set (messages state)"
  let ?st = "state\<lparr>messages := messages state @ [m_text req]\<rparr>"
  let ?w = "w\<lparr>conversation_states := (conversation_states w)(m_channel req \<mapsto> ?st)\<rparr>"
  have res: "process_slack_events E req w
             = fst (process_conversation E (m_channel req) (m_user req) ?w)"
    using assms new by (simp add: process_slack_events_def Let_def)
  have st: "conversation_states ?w (m_channel req) = Some ?st" "messages ?st \<noteq> []"
    by simp_all
  note shape = process_conversation_shape [OF st, of E "m_user req"]
  from shape(1) obtain rest where
    eff: "effects (process_slack_events E req w)
          = effects w @ Classified (join_lines (messages state @ [m_text req])) # rest"
    unfolding res by auto
  from shape(3) have
    "\<exists>state'. conversation_states (process_slack_events E req w) (m_channel req) = Some state'
        \<and> messages state' = messages state @ [m_text req]"
    unfolding res by auto
  with eff show "\<exists>state' rest.
      conversation_states (process_slack_events E req w) (m_channel req) = Some state'
      \<and> messages state' = messages state @ [m_text req]
      \<and> effects (process_slack_events E req w)
          = effects w @ Classified (join_lines (messages state @ [m_text req])) # rest"
    by blast
next
  assume "m_text req \<in> set (messages state)"
  with assms show "process_slack_events E req w = w"
    by (simp add: process_slack_events_def Let_def)
qed

theorem owner_message_appended_iff_new_witness:
  "m_type (sample_message ''U1'' ''3 years'') = ''events_api''
   \<and> m_event_type (sample_message ''U1'' ''3 years'') = ''message''
   \<and> m_user (sample_message ''U1'' ''3 years'') \<noteq> bot_user_id sample_env
   \<and> \<not> m_subtype (sample_message ''U1'' ''3 years'')
   \<and> conversation_states (sample_world (collecting [''I need a backend developer'']))
        (m_channel (sample_message ''U1'' ''3 years''))
       = Some (collecting [''I need a backend developer''])
   \<and> m_user (sample_message ''U1'' ''3 years'') = user_id (collecting [''I need a backend developer''])
   \<and> m_text (sample_message ''U1'' ''3 years'')
        \<notin> set (messages (collecting [''I need a backend developer'']))
   \<and> (\<exists>state' rest.
         conversation_states
           (process_slack_events sample_env (sample_message ''U1'' ''3 years'')
              (sample_world (collecting [''I need a backend developer''])))
           (m_channel (sample_message ''U1'' ''3 years'')) = Some state'
         \<and> messages state' = [''I need a backend developer'', ''3 years'']
         \<and> effects
             (process_slack_events sample_env (sample_message ''U1'' ''3 years'')
                (sample_world (collecting [''I need a backend developer''])))
           = Classified (''I need a backend developer'' @ [CHR 0x0A] @ ''3 years'') # rest)
   \<and> m_text (sample_message ''U1'' ''I need a backend developer'')
        \<in> set (messages (collecting [''I need a backend developer'']))
   \<and> process_slack_events sample_env (sample_message ''U1'' ''I need a backend developer'')
         (sample_world (collecting [''I need a backend developer'']))
       = sample_world (collecting [''I need a backend developer''])"
proof -
  let ?st = "collecting [''I need a backend developer'']"
  let ?req = "sample_message ''U1'' ''3 years''"
  let ?dup = "sample_message ''U1'' ''I need a backend developer''"
  have a': "m_type ?dup = ''events_api''" "m_event_type ?dup = ''message''"
    "m_user ?dup \<noteq> bot_user_id sample_env" "\<not> m_subtype ?dup"
    by (simp_all add: sample_message_def sample_env_def)
  have b': "conversation_states (sample_world ?st) (m_channel ?dup) = Some ?st"
    by (simp add: sample_world_def sample_message_def)
  have c': "m_user ?dup = user_id ?st"
    by (simp add: sample_message_def collecting_def)
  have d': "m_text ?dup \<in> set (messages ?st)"
    by (simp add: sample_message_def collecting_def)
  from owner_message_appended_iff_new [OF a' b' c'] d'
  have same: "process_slack_events sample_env ?dup (sample_world ?st) = sample_world ?st"
    by blast
  have a: "m_type ?req = ''events_api''" "m_event_type ?req = ''message''"
    "m_user ?req \<noteq> bot_user_id sample_env" "\<not> m_subtype ?req"
    by (simp_all add: sample_message_def sample_env_def)
  have b: "conversation_states (sample_world ?st) (m_channel ?req) = Some ?st"
    by (simp add: sample_world_def sample_message_def)
  have c: "m_user ?req = user_id ?st"
    by (simp add: sample_message_def collecting_def)
  have d: "m_text ?req \<notin> set (messages ?st)"
    by (simp add: sample_message_def collecting_def)
  have e: "messages ?st @ [m_text ?req] = [''I need a backend developer'', ''3 years'']"
    "effects (sample_world ?st) = []"
    "join_lines (messages ?st @ [m_text ?req])
       = ''I need a backend developer'' @ [CHR 0x0A] @ ''3 years''"
    by (simp_all add: sample_message_def collecting_def sample_world_def)
  from owner_message_appended_iff_new [OF a b c] d
  have "\<exists>state' rest.
      conversation_states (process_slack_events sample_env ?req (sample_world ?st)) (m_channel ?req)
        = Some state'
      \<and> messages state' = messages ?st @ [m_text ?req]
      \<and> effects (process_slack_events sample_env ?req (sample_world ?st))
          = effects (sample_world ?st) @ Classified (join_lines (messages ?st @ [m_text ?req])) # rest"
    by blast
  then have "\<exists>state' rest.
      conversation_states (process_slack_events sample_env ?req (sample_world ?st)) (m_channel ?req)
        = Some state'
      \<and> messages state' = [''I need a backend developer'', ''3 years'']
      \<and> effects (process_slack_events sample_env ?req (sample_world ?st))
          = Classified (''I need a backend developer'' @ [CHR 0x0A] @ ''3 years'') # rest"
    unfolding e by simp
  with a b c d d' same show ?thesis by blast
qed

text \<open>
  The claim as it was written fails on a text that repeats an earlier message but not the
  last one: it is not a duplicate of the last stored message, and still nothing is
  appended and the classifier is not called.
\<close>

theorem earlier_text_counterexample:
  "m_text (sample_message ''U1'' ''I need a backend developer'')
     \<noteq> last (messages (collecting [''I need a backend developer'', ''3 years'']))
   \<and> conversation_states
        (process_slack_events sample_env (sample_message ''U1'' ''I need a backend developer'')
           (sample_world (collecting [''I need a backend developer'', ''3 years''])))
        ''C1''
       = Some (collecting [''I need a backend developer'', ''3 years''])
   \<and> effects
        (process_slack_events sample_env (sample_message ''U1'' ''I need a backend developer'')
           (sample_world (collecting [''I need a backend developer'', ''3 years''])))
       = []"
proof -
  let ?st = "collecting [''I need a backend developer'', ''3 years'']"
  let ?req = "sample_message ''U1'' ''I need a backend developer''"
  have a: "conversation_states (sample_world ?st) (m_channel ?req) = Some ?st"
    by (simp add: sample_world_def sample_message_def)
  have b: "m_user ?req = user_id ?st"
    by (simp add: sample_message_def collecting_def)
  have c: "m_text ?req \<in> set (messages ?st)"
    by (simp add: sample_message_def collecting_def)
  have d: "m_text ?req \<noteq> last (messages ?st)"
    by (simp add: sample_message_def collecting_def)
  have "process_slack_events sample_env ?req (sample_world ?st) = sample_world ?st"
    using a b c by (rule process_slack_events_known_text)
  with d show ?thesis by (simp add: sample_world_def)
qed




section \<open>Properties of the classifier and the generator\<close>

lemma strip_title: "py_strip ''Backend developer'' = ''Backend developer''"
  by (simp add: py_strip_def lstrip.simps rstrip.simps leading_space_def trailing_space_def
      whitespace_def)


lemma py_strip_Nil: "py_strip [] = []"
  by (simp add: py_strip_def lstrip.simps rstrip.simps leading_space_def trailing_space_def
      whitespace_def)









subsection \<open>The sample classifier, evaluated\<close>

lemma py_strip_id:
  assumes "leading_space s = 0" "trailing_space s = 0"
  shows "py_strip s = s"
  using assms by (simp add: py_strip_def lstrip.simps rstrip.simps)

lemma sample_strips:
  "py_strip ''title only'' = ''title only''"
  "py_strip ''all filled'' = ''all filled''"
  "py_strip ''senior now'' = ''senior now''"
  "py_strip ''Sorry, I cannot answer that.'' = ''Sorry, I cannot answer that.''"
  "py_strip ''3 years'' = ''3 years''"
  "py_strip ''Senior'' = ''Senior''"
  "py_strip ''Node.js'' = ''Node.js''"
  "py_strip ''full-time'' = ''full-time''"
  "py_strip ''Remote'' = ''Remote''"
  "py_strip ''**We are hiring** a Backend developer'' = ''**We are hiring** a Backend developer''"
  by (rule py_strip_id; simp add: leading_space_def trailing_space_def whitespace_def)+

lemma sample_knowledge: "load_company_knowledge sample_services = Inr default_knowledge"
  by (simp add: load_company_knowledge_def sample_services_def)

lemma sample_clean:
  "clean_response ''title only'' = ''title only''"
  "clean_response ''all filled'' = ''all filled''"
  "clean_response ''senior now'' = ''senior now''"
  "clean_response ''Sorry, I cannot answer that.'' = ''Sorry, I cannot answer that.''"
  by (simp_all add: clean_response_def Let_def sample_strips startswith_def endswith_def)

lemma sample_py_len: "py_len ''Node.js'' = 7" "py_len ''Remote'' = 6"
  by (simp_all add: py_len_def continuation_def)

lemma sample_validated:
  "validate_entities sample_services title_only_entities = Inr title_only_entities"
  "validate_entities sample_services sample_entities = Inr sample_entities"
  "validate_entities sample_services senior_entities = Inr senior_entities"
  by (simp_all add: validate_entities_def entity_str_def dict_get_def dict_get_or_def
      title_only_entities_def sample_entities_def senior_entities_def sample_services_def
      sample_lower_def sample_experience_pattern_def sample_strips strip_title
      valid_titles_def valid_types_def sample_py_len startswith_def)

lemma sample_services_fields:
  "parse_json sample_services = sample_loads"
  "json_dumps sample_services = sample_dumps"
  "classifier_model sample_services = sample_model"
  "vertex_search sample_services = (\<lambda>query. [])"
  "description_model sample_services = (\<lambda>parts. Inr ''**We are hiring** a Backend developer'')"
  "value_text sample_services = (\<lambda>v. ''?'')"
  by (simp_all add: sample_services_def)

lemma sample_validate_response:
  "validate_response sample_services ''title only'' = Inr (hiring_reply title_only_entities)"
  "validate_response sample_services ''all filled'' = Inr (hiring_reply sample_entities)"
  "validate_response sample_services ''senior now'' = Inr (hiring_reply senior_entities)"
  by (simp_all add: validate_response_def sample_clean sample_services_fields sample_loads_def
      hiring_reply_def dict_has_def dict_get_def dict_get_or_def sample_validated)

lemma sample_classification:
  "classification sample_services ''I need a backend developer''
     = Inr (hiring_reply title_only_entities)"
  "classification sample_services
     (''I need a backend developer'' @ [CHR 0x0A] @ ''3 years, Node.js, full-time, remote'')
     = Inr (hiring_reply sample_entities)"
  "classification sample_services
     (''I need a backend developer'' @ [CHR 0x0A] @ ''3 years, Node.js, full-time, remote''
      @ [CHR 0x0A] @ ''make it senior'')
     = Inr (hiring_reply senior_entities)"
  using sample_validate_response
  by (simp_all add: classification_def sample_knowledge default_knowledge_def Let_def
      sample_strips sample_services_fields sample_model_def)

lemma sample_dumped:
  "sample_dumps (hiring_reply title_only_entities) = ''title only''"
  "sample_dumps (hiring_reply sample_entities) = ''all filled''"
  "sample_dumps (hiring_reply senior_entities) = ''senior now''"
  by (simp_all add: sample_dumps_def hiring_reply_def title_only_entities_def
      sample_entities_def senior_entities_def)

lemma sample_agent:
  "llm_agent sample_env ''I need a backend developer'' = Inr ''title only''"
  "llm_agent sample_env
     (''I need a backend developer'' @ [CHR 0x0A] @ ''3 years, Node.js, full-time, remote'')
     = Inr ''all filled''"
  "llm_agent sample_env
     (''I need a backend developer'' @ [CHR 0x0A] @ ''3 years, Node.js, full-time, remote''
      @ [CHR 0x0A] @ ''make it senior'')
     = Inr ''senior now''"
  using sample_classification sample_dumped
  by (simp_all add: sample_env_def sample_llm_agent_def process_with_adk_agent_def
      sample_services_fields)

section \<open>Properties of the hiring branch\<close>



lemma finalize_first_message:
  assumes "dict_get es ''job_title'' = JStr title" "py_strip title \<noteq> []"
  shows "\<exists>rest. effects (fst (finalize E c st es w))
           = effects w @ Sent c (Text (confirmation_text (repr E) st es)) # rest"
proof -
  from assms(2) have "title \<noteq> []" using py_strip_Nil by auto
  with assms show ?thesis
    by (auto simp add: finalize_def Let_def chat_postMessage_def call_def
        split: sum.splits prod.splits)
qed

lemma process_conversation_hiring:
  assumes "conversation_states w c = Some st" "messages st \<noteq> []"
    and "llm_agent E (join_lines (messages st)) = Inr llm_response"
    and "dict_get (validate_llm_response (json_loads E) llm_response) ''intent''
           = JStr ''hiring_request''"
    and "dict_get (validate_llm_response (json_loads E) llm_response) ''entities'' = JObj es"
  shows "process_conversation E c u w
         = hiring_request E c st es (call (Classified (join_lines (messages st))) w)"
proof -
  from assms(5) have "dict_has (validate_llm_response (json_loads E) llm_response) ''entities''"
    by (auto simp add: dict_has_def dict_get_def dict_get_or_def split: option.splits)
  with assms show ?thesis
    by (simp add: process_conversation_def Let_def)
qed



lemma hiring_request_all_filled:
  assumes "\<forall>k\<in>set follow_up_order. dict_get es k \<noteq> JNull"
  shows "hiring_request E c st es w = finalize E c st es w"
proof -
  from assms have "first_missing_entity es = None"
    by (simp add: first_missing_entity_def find_None_iff)
  then show ?thesis by (simp add: hiring_request_def)
qed









section \<open>Properties of the button handler\<close>

lemma handle_interaction_no_conversation:
  "conversation_states w (i_channel req) = None \<Longrightarrow> handle_interaction E req w = w"
  by (simp add: handle_interaction_def Let_def)

text \<open>
  Claim C6.  The owner presses \<^verbatim>\<open>jd_post_yes\<close> or \<^verbatim>\<open>jd_draft\<close> on a conversation that has
  its \<^verbatim>\<open>final_entities\<close> (a dictionary that is not empty), and the collaborator succeeds:
  the poster returns \<^verbatim>\<open>(True, reference)\<close>, or the draft store returns \<^verbatim>\<open>True\<close>.  Then the
  handler calls the collaborator with the final entities, posts a confirmation that
  carries what the collaborator returned (the link; for a draft the value \<^verbatim>\<open>True\<close>, which
  is what \<^verbatim>\<open>save_job_to_file\<close> returns as its job id), posts that the conversation ended,
  marks the channel in \<^verbatim>\<open>recently_completed\<close> and deletes the conversation.
\<close>

theorem success_completes_conversation:
  assumes "i_type req = ''interactive''"
    and "conversation_states w (i_channel req) = Some state"
    and "i_user req = user_id state"
    and "final_entities state = Some entities" "entities \<noteq> []"
  shows "(i_action_id req = ''jd_post_yes'' \<and> linkedin_poster E entities = Inr (True, reference) \<longrightarrow>
            effects (handle_interaction E req w)
              = effects w @
                [Posted entities,
                 Sent (i_channel req)
                   (Text (check_mark @ '' Job posted successfully! Link: '' @ reference)),
                 Sent (i_channel req) (Text (party_popper @ '' Job posted! Conversation ended.''))]
            \<and> recently_completed (handle_interaction E req w)
                = (recently_completed w)(i_channel req \<mapsto> True)
            \<and> conversation_states (handle_interaction E req w)
                = (conversation_states w)(i_channel req := None))
       \<and> (i_action_id req = ''jd_draft'' \<and> state_manager E entities = Inr True \<longrightarrow>
            effects (handle_interaction E req w)
              = effects w @
                [Saved entities,
                 Sent (i_channel req) (Text (check_mark @ '' Job saved as draft. Job ID: True'')),
                 Sent (i_channel req) (Text (floppy_disk @ '' Draft saved! Conversation ended.''))]
            \<and> recently_completed (handle_interaction E req w)
                = (recently_completed w)(i_channel req \<mapsto> True)
            \<and> conversation_states (handle_interaction E req w)
                = (conversation_states w)(i_channel req := None))"
  using assms
  by (simp add: handle_interaction_def Let_def jd_post_yes_def jd_draft_def
      del_conversation_def mark_completed_def chat_postMessage_def call_def)

theorem success_completes_conversation_witness:
  "i_type (sample_press ''U1'' ''jd_post_yes'') = ''interactive''
   \<and> conversation_states (sample_world confirming) (i_channel (sample_press ''U1'' ''jd_post_yes''))
       = Some confirming
   \<and> i_user (sample_press ''U1'' ''jd_post_yes'') = user_id confirming
   \<and> final_entities confirming = Some sample_entities \<and> sample_entities \<noteq> []
   \<and> i_action_id (sample_press ''U1'' ''jd_post_yes'') = ''jd_post_yes''
   \<and> linkedin_poster sample_env sample_entities
       = Inr (True, ''https://www.linkedin.com/feed/update/urn:li:share:7'')
   \<and> effects (handle_interaction sample_env (sample_press ''U1'' ''jd_post_yes'')
                (sample_world confirming))
       = [Posted sample_entities,
          Sent ''C1'' (Text (check_mark @ '' Job posted successfully! Link: ''
                              @ ''https://www.linkedin.com/feed/update/urn:li:share:7'')),
          Sent ''C1'' (Text (party_popper @ '' Job posted! Conversation ended.''))]
   \<and> recently_completed (handle_interaction sample_env (sample_press ''U1'' ''jd_post_yes'')
                           (sample_world confirming)) ''C1'' = Some True
   \<and> conversation_states (handle_interaction sample_env (sample_press ''U1'' ''jd_post_yes'')
                            (sample_world confirming)) ''C1'' = None
   \<and> i_action_id (sample_press ''U1'' ''jd_draft'') = ''jd_draft''
   \<and> state_manager sample_env sample_entities = Inr True
   \<and> effects (handle_interaction sample_env (sample_press ''U1'' ''jd_draft'')
                (sample_world confirming))
       = [Saved sample_entities,
          Sent ''C1'' (Text (check_mark @ '' Job saved as draft. Job ID: True'')),
          Sent ''C1'' (Text (floppy_disk @ '' Draft saved! Conversation ended.''))]
   \<and> conversation_states (handle_interaction sample_env (sample_press ''U1'' ''jd_draft'')
                            (sample_world confirming)) ''C1'' = None"
proof -
  let ?post = "sample_press ''U1'' ''jd_post_yes''"
  let ?draft = "sample_press ''U1'' ''jd_draft''"
  have a: "i_type ?post = ''interactive''" "i_type ?draft = ''interactive''"
    by (simp_all add: sample_press_def)
  have b: "conversation_states (sample_world confirming) (i_channel ?post) = Some confirming"
    "conversation_states (sample_world confirming) (i_channel ?draft) = Some confirming"
    by (simp_all add: sample_world_def sample_press_def)
  have c: "i_user ?post = user_id confirming" "i_user ?draft = user_id confirming"
    by (simp_all add: sample_press_def confirming_def collecting_def)
  have d: "final_entities confirming = Some sample_entities" "sample_entities \<noteq> []"
    by (simp_all add: confirming_def sample_entities_def)
  have e: "i_action_id ?post = ''jd_post_yes''" "i_action_id ?draft = ''jd_draft''"
    "i_channel ?post = ''C1''" "i_channel ?draft = ''C1''"
    by (simp_all add: sample_press_def)
  have f: "linkedin_poster sample_env sample_entities
             = Inr (True, ''https://www.linkedin.com/feed/update/urn:li:share:7'')"
    "state_manager sample_env sample_entities = Inr True"
    by (simp_all add: sample_env_def sample_poster_def sample_store_def)
  have g: "effects (sample_world confirming) = []"
    by (simp add: sample_world_def)
  note posted = success_completes_conversation [OF a(1) b(1) c(1) d, of sample_env
      "''https://www.linkedin.com/feed/update/urn:li:share:7''"]
  note drafted = success_completes_conversation [OF a(2) b(2) c(2) d, of sample_env
      "''https://www.linkedin.com/feed/update/urn:li:share:7''"]
  from posted e f g
  have one: "effects (handle_interaction sample_env ?post (sample_world confirming))
       = [Posted sample_entities,
          Sent ''C1'' (Text (check_mark @ '' Job posted successfully! Link: ''
                              @ ''https://www.linkedin.com/feed/update/urn:li:share:7'')),
          Sent ''C1'' (Text (party_popper @ '' Job posted! Conversation ended.''))]"
    "recently_completed (handle_interaction sample_env ?post (sample_world confirming)) ''C1''
       = Some True"
    "conversation_states (handle_interaction sample_env ?post (sample_world confirming)) ''C1''
       = None"
    by simp_all
  from drafted e f g
  have two: "effects (handle_interaction sample_env ?draft (sample_world confirming))
       = [Saved sample_entities,
          Sent ''C1'' (Text (check_mark @ '' Job saved as draft. Job ID: True'')),
          Sent ''C1'' (Text (floppy_disk @ '' Draft saved! Conversation ended.''))]"
    "conversation_states (handle_interaction sample_env ?draft (sample_world confirming)) ''C1''
       = None"
    by simp_all
  from a b c d e(1,2) f one two show ?thesis by blast
qed


text \<open>
  Claim C3, as amended.  The owner presses \<^verbatim>\<open>jd_post_yes\<close> or \<^verbatim>\<open>jd_draft\<close> on a conversation
  that has its \<^verbatim>\<open>final_entities\<close>, and the collaborator fails: the poster returns
  \<^verbatim>\<open>(False, reason)\<close> or raises, or the draft store returns \<^verbatim>\<open>False\<close> or raises.  Then the
  handler posts one error message and goes on to the last line of its owner branch,
  \<^verbatim>\<open>del conversation_states[channel_id]\<close>: the conversation is deleted, and the channel is
  not marked in \<^verbatim>\<open>recently_completed\<close>.
\<close>

theorem failure_deletes_conversation:
  assumes "i_type req = ''interactive''"
    and "conversation_states w (i_channel req) = Some state"
    and "i_user req = user_id state"
    and "final_entities state = Some entities" "entities \<noteq> []"
  shows "(i_action_id req = ''jd_post_yes'' \<and> linkedin_poster E entities = Inr (False, reason) \<longrightarrow>
            effects (handle_interaction E req w)
              = effects w @
                [Posted entities,
                 Sent (i_channel req) (Text (cross_mark @ '' Error posting to LinkedIn: '' @ reason))]
            \<and> conversation_states (handle_interaction E req w)
                = (conversation_states w)(i_channel req := None)
            \<and> recently_completed (handle_interaction E req w) = recently_completed w)
       \<and> (i_action_id req = ''jd_post_yes'' \<and> linkedin_poster E entities = Inl e \<longrightarrow>
            effects (handle_interaction E req w)
              = effects w @
                [Posted entities,
                 Sent (i_channel req)
                   (Text (cross_mark @ '' An error occurred while posting to LinkedIn. Please try again.''))]
            \<and> conversation_states (handle_interaction E req w)
                = (conversation_states w)(i_channel req := None)
            \<and> recently_completed (handle_interaction E req w) = recently_completed w)
       \<and> (i_action_id req = ''jd_draft''
            \<and> (state_manager E entities = Inr False \<or> state_manager E entities = Inl e) \<longrightarrow>
            effects (handle_interaction E req w)
              = effects w @
                [Saved entities,
                 Sent (i_channel req)
                   (Text (cross_mark @ '' An error occurred while saving the draft. Please try again.''))]
            \<and> conversation_states (handle_interaction E req w)
                = (conversation_states w)(i_channel req := None)
            \<and> recently_completed (handle_interaction E req w) = recently_completed w)"
  using assms
  by (auto simp add: handle_interaction_def Let_def jd_post_yes_def jd_draft_def
      del_conversation_def chat_postMessage_def call_def)

theorem failure_deletes_conversation_witness:
  "i_type (sample_press ''U1'' ''jd_draft'') = ''interactive''
   \<and> conversation_states (sample_world confirming) (i_channel (sample_press ''U1'' ''jd_draft''))
       = Some confirming
   \<and> i_user (sample_press ''U1'' ''jd_draft'') = user_id confirming
   \<and> final_entities confirming = Some sample_entities \<and> sample_entities \<noteq> []
   \<and> i_action_id (sample_press ''U1'' ''jd_draft'') = ''jd_draft''
   \<and> state_manager failing_env sample_entities = Inr False
   \<and> effects (handle_interaction failing_env (sample_press ''U1'' ''jd_draft'')
                (sample_world confirming))
       = [Saved sample_entities,
          Sent ''C1''
            (Text (cross_mark @ '' An error occurred while saving the draft. Please try again.''))]
   \<and> conversation_states (handle_interaction failing_env (sample_press ''U1'' ''jd_draft'')
                            (sample_world confirming)) ''C1'' = None
   \<and> recently_completed (handle_interaction failing_env (sample_press ''U1'' ''jd_draft'')
                           (sample_world confirming)) ''C1'' = None"
proof -
  let ?draft = "sample_press ''U1'' ''jd_draft''"
  have a: "i_type ?draft = ''interactive''"
    by (simp add: sample_press_def)
  have b: "conversation_states (sample_world confirming) (i_channel ?draft) = Some confirming"
    by (simp add: sample_world_def sample_press_def)
  have c: "i_user ?draft = user_id confirming"
    by (simp add: sample_press_def confirming_def collecting_def)
  have d: "final_entities confirming = Some sample_entities" "sample_entities \<noteq> []"
    by (simp_all add: confirming_def sample_entities_def)
  have e: "i_action_id ?draft = ''jd_draft''" "i_channel ?draft = ''C1''"
    by (simp_all add: sample_press_def)
  have f: "state_manager failing_env sample_entities = Inr False"
    by (simp add: failing_env_def sample_env_def failing_store_def)
  have g: "effects (sample_world confirming) = []"
    "recently_completed (sample_world confirming) ''C1'' = None"
    by (simp_all add: sample_world_def)
  note failed = failure_deletes_conversation [OF a b c d, of failing_env "''''" AttributeError]
  from failed e f g
  have "effects (handle_interaction failing_env ?draft (sample_world confirming))
       = [Saved sample_entities,
          Sent ''C1''
            (Text (cross_mark @ '' An error occurred while saving the draft. Please try again.''))]"
    "conversation_states (handle_interaction failing_env ?draft (sample_world confirming)) ''C1''
       = None"
    "recently_completed (handle_interaction failing_env ?draft (sample_world confirming)) ''C1''
       = None"
    by simp_all
  with a b c d e(1) f show ?thesis by blast
qed

text \<open>
  The claim as it was written fails when the poster reports a failure: the conversation
  does not remain, so a second press of the same button finds no conversation and does
  nothing at all.
\<close>

theorem failed_post_counterexample:
  "linkedin_poster failing_env sample_entities = Inr (False, ''Failed: 401 - Unauthorized'')
   \<and> conversation_states
        (handle_interaction failing_env (sample_press ''U1'' ''jd_post_yes'') (sample_world confirming))
        ''C1'' = None
   \<and> handle_interaction failing_env (sample_press ''U1'' ''jd_post_yes'')
        (handle_interaction failing_env (sample_press ''U1'' ''jd_post_yes'') (sample_world confirming))
       = handle_interaction failing_env (sample_press ''U1'' ''jd_post_yes'') (sample_world confirming)"
proof -
  let ?post = "sample_press ''U1'' ''jd_post_yes''"
  let ?w = "handle_interaction failing_env ?post (sample_world confirming)"
  have f: "linkedin_poster failing_env sample_entities = Inr (False, ''Failed: 401 - Unauthorized'')"
    by (simp add: failing_env_def sample_env_def failing_poster_def)
  have ne: "sample_entities \<noteq> []"
    by (simp add: sample_entities_def)
  have gone: "conversation_states ?w ''C1'' = None"
    by (simp add: handle_interaction_def Let_def jd_post_yes_def del_conversation_def
        chat_postMessage_def call_def sample_press_def sample_world_def confirming_def
        collecting_def f ne)
  have "i_channel ?post = ''C1''"
    by (simp add: sample_press_def)
  with gone have "handle_interaction failing_env ?post ?w = ?w"
    by (simp add: handle_interaction_no_conversation)
  with f gone show ?thesis by blast
qed


text \<open>
  Claim C7.  The owner presses a button on a conversation that has no \<^verbatim>\<open>final_entities\<close>.
  The handler posts its notice to start over and returns at once (line 253): the world is
  otherwise as it was, and the conversation is still in the store.
\<close>

theorem lost_context_keeps_conversation:
  assumes "i_type req = ''interactive''"
    and "conversation_states w (i_channel req) = Some state"
    and "i_user req = user_id state"
    and "final_entities state = None"
  shows "handle_interaction E req w
           = w\<lparr>effects := effects w @
                [Sent (i_channel req)
                   (Text ''Sorry, I seem to have lost the context. Please start over.'')]\<rparr>
         \<and> conversation_states (handle_interaction E req w) (i_channel req) = Some state"
  using assms by (simp add: handle_interaction_def Let_def chat_postMessage_def)

theorem lost_context_keeps_conversation_witness:
  "i_type (sample_press ''U1'' ''jd_post_yes'') = ''interactive''
   \<and> conversation_states (sample_world (collecting [''I need a backend developer'']))
        (i_channel (sample_press ''U1'' ''jd_post_yes''))
       = Some (collecting [''I need a backend developer''])
   \<and> i_user (sample_press ''U1'' ''jd_post_yes'') = user_id (collecting [''I need a backend developer''])
   \<and> final_entities (collecting [''I need a backend developer'']) = None
   \<and> effects (handle_interaction sample_env (sample_press ''U1'' ''jd_post_yes'')
                (sample_world (collecting [''I need a backend developer''])))
       = [Sent ''C1'' (Text ''Sorry, I seem to have lost the context. Please start over.'')]
   \<and> conversation_states
        (handle_interaction sample_env (sample_press ''U1'' ''jd_post_yes'')
           (sample_world (collecting [''I need a backend developer''])))
        ''C1''
       = Some (collecting [''I need a backend developer''])"
proof -
  let ?st = "collecting [''I need a backend developer'']"
  let ?req = "sample_press ''U1'' ''jd_post_yes''"
  have a: "i_type ?req = ''interactive''"
    by (simp add: sample_press_def)
  have b: "conversation_states (sample_world ?st) (i_channel ?req) = Some ?st"
    by (simp add: sample_world_def sample_press_def)
  have c: "i_user ?req = user_id ?st" "final_entities ?st = None"
    by (simp_all add: sample_press_def collecting_def)
  have d: "i_channel ?req = ''C1''" "effects (sample_world ?st) = []"
    by (simp_all add: sample_press_def sample_world_def)
  from lost_context_keeps_conversation [OF a b c, of sample_env] d b
  have "effects (handle_interaction sample_env ?req (sample_world ?st))
       = [Sent ''C1'' (Text ''Sorry, I seem to have lost the context. Please start over.'')]"
    "conversation_states (handle_interaction sample_env ?req (sample_world ?st)) ''C1'' = Some ?st"
    by simp_all
  with a b c show ?thesis by blast
qed

section \<open>Editing\<close>

lemma confirmation_text_editing:
  assumes "editing st = Some True" "original_entities st = Some old"
  shows "confirmation_text r st es
         = pencil @ '' Here are the updated job details:''
           @ concat (map (\<lambda>(label, key).
                 [CHR 0x0A] @ ''  '' @ bullet @ '' *'' @ label @ ''*: '' @ entity_text r es key
                 @ '' (was: '' @ entity_text r old key @ '')'')
               [(''Job Title'', ''job_title''), (''Experience'', ''experience''),
                (''Skills'', ''skills''), (''Job Type'', ''job_type''),
                (''Location'', ''location'')])"
  using assms by (simp add: confirmation_text_def Let_def)

text \<open>
  An accepted message touches only the conversation of its own channel, and a message of
  the owner leaves the owner and the two edit fields of the conversation as they were.
\<close>

lemma process_slack_events_other_channel:
  assumes "c \<noteq> m_channel req"
  shows "conversation_states (process_slack_events E req w) c = conversation_states w c"
proof -
  have shape: "conversation_states
                 (fst (process_conversation E (m_channel req) u
                    (w\<lparr>conversation_states := (conversation_states w)(m_channel req \<mapsto> st)\<rparr>))) c
               = conversation_states w c"
    if "messages st \<noteq> []" for st u
  proof -
    let ?w = "w\<lparr>conversation_states := (conversation_states w)(m_channel req \<mapsto> st)\<rparr>"
    have "conversation_states ?w (m_channel req) = Some st" by simp
    from process_conversation_shape(3) [OF this that, of E u] assms show ?thesis by auto
  qed
  show ?thesis
    using assms
    by (simp add: process_slack_events_def Let_def new_conversation_def shape
        split: option.splits)
qed

lemma process_slack_events_owner_keeps_mode:
  assumes "conversation_states w (m_channel req) = Some state" "m_user req = user_id state"
  shows "\<exists>state'. conversation_states (process_slack_events E req w) (m_channel req) = Some state'
           \<and> user_id state' = user_id state \<and> editing state' = editing state
           \<and> original_entities state' = original_entities state"
proof -
  let ?st = "state\<lparr>messages := messages state @ [m_text req]\<rparr>"
  let ?w = "w\<lparr>conversation_states := (conversation_states w)(m_channel req \<mapsto> ?st)\<rparr>"
  have st: "conversation_states ?w (m_channel req) = Some ?st" "messages ?st \<noteq> []"
    by simp_all
  from process_conversation_shape(3) [OF st, of E "m_user req"]
  have "\<exists>state'. conversation_states (fst (process_conversation E (m_channel req) (m_user req) ?w))
                    (m_channel req) = Some state'
           \<and> user_id state' = user_id state \<and> editing state' = editing state
           \<and> original_entities state' = original_entities state"
    by auto
  with assms show ?thesis
    by (simp add: process_slack_events_def Let_def)
qed

lemma edit_mode_persists:
  assumes "\<forall>(E, r) \<in> set later. m_channel r = c \<longrightarrow> m_user r = owner"
    and "conversation_states w c = Some state" "user_id state = owner"
  shows "\<exists>state'. conversation_states (foldl (\<lambda>w (E, r). process_slack_events E r w) w later) c
                    = Some state'
           \<and> user_id state' = owner \<and> editing state' = editing state
           \<and> original_entities state' = original_entities state"
  using assms
proof (induction later arbitrary: w state)
  case Nil
  then show ?case by simp
next
  case (Cons ev later)
  obtain E r where ev: "ev = (E, r)" by (cases ev)
  have "\<exists>state1. conversation_states (process_slack_events E r w) c = Some state1
           \<and> user_id state1 = owner \<and> editing state1 = editing state
           \<and> original_entities state1 = original_entities state"
  proof (cases "m_channel r = c")
    case True
    with Cons.prems ev have "m_user r = user_id state" by simp
    with process_slack_events_owner_keeps_mode [of w r state E] True Cons.prems
    show ?thesis by auto
  next
    case False
    with process_slack_events_other_channel [of c r E w] Cons.prems show ?thesis by auto
  qed
  then obtain state1 where s1: "conversation_states (process_slack_events E r w) c = Some state1"
    "user_id state1 = owner" "editing state1 = editing state"
    "original_entities state1 = original_entities state"
    by blast
  from Cons.prems(1) have "\<forall>(E, r) \<in> set later. m_channel r = c \<longrightarrow> m_user r = owner"
    by simp
  from Cons.IH [OF this s1(1,2)] s1(3,4) ev show ?case by simp
qed

text \<open>
  Claim C8.  The owner presses \<^verbatim>\<open>jd_edit\<close> on a conversation that has its
  \<^verbatim>\<open>final_entities\<close>.  The handler posts its prompt, and in the conversation it sets
  \<^verbatim>\<open>processed\<close> to \<^verbatim>\<open>False\<close>, \<^verbatim>\<open>editing\<close> to \<^verbatim>\<open>True\<close> and \<^verbatim>\<open>original_entities\<close> to a copy of
  the final entities; the history, the owner and the final entities stay as they were.
  Any messages may follow, as long as those in this channel are the owner's: the
  conversation stays in edit mode with the same snapshot.  When then a new message of the
  owner is classified as a hiring request with all five attributes and a job title that
  is not blank, the confirmation that the bot sends lists, for each of the five
  attributes, the new value followed by \<^verbatim>\<open>(was: X)\<close> with \<open>X\<close> the value of that attribute
  in the snapshot.
\<close>

theorem edit_then_finalize_shows_changes:
  assumes "i_type req = ''interactive''" "i_action_id req = ''jd_edit''"
    and "conversation_states w (i_channel req) = Some state"
    and "i_user req = user_id state"
    and "final_entities state = Some entities" "entities \<noteq> []"
    and "\<forall>(E1, r) \<in> set later. m_channel r = i_channel req \<longrightarrow> m_user r = user_id state"
    and "w2 = foldl (\<lambda>w (E1, r). process_slack_events E1 r w) (handle_interaction E0 req w) later"
    and "conversation_states w2 (i_channel req) = Some state2"
    and "m_type mreq = ''events_api''" "m_event_type mreq = ''message''"
    and "m_user mreq \<noteq> bot_user_id E" "\<not> m_subtype mreq"
    and "m_channel mreq = i_channel req" "m_user mreq = user_id state"
    and "m_text mreq \<notin> set (messages state2)"
    and "llm_agent E (join_lines (messages state2 @ [m_text mreq])) = Inr llm_response"
    and "dict_get (validate_llm_response (json_loads E) llm_response) ''intent''
           = JStr ''hiring_request''"
    and "dict_get (validate_llm_response (json_loads E) llm_response) ''entities''
           = JObj new_entities"
    and "\<forall>k\<in>set follow_up_order. dict_get new_entities k \<noteq> JNull"
    and "dict_get new_entities ''job_title'' = JStr title" "py_strip title \<noteq> []"
  shows "handle_interaction E0 req w
           = w\<lparr>effects := effects w @
                  [Sent (i_channel req) (Text (pencil @
                     '' Let's edit the job details. Please provide the updated information:''))],
                conversation_states := (conversation_states w)
                  (i_channel req \<mapsto> state\<lparr>processed := Some False, editing := Some True,
                                            original_entities := Some entities\<rparr>)\<rparr>
       \<and> editing state2 = Some True \<and> original_entities state2 = Some entities
       \<and> (\<exists>rest. effects (process_slack_events E mreq w2)
             = effects w2 @
               [Classified (join_lines (messages state2 @ [m_text mreq])),
                Sent (i_channel req) (Text
                  (pencil @ '' Here are the updated job details:''
                   @ concat (map (\<lambda>(label, key).
                       [CHR 0x0A] @ ''  '' @ bullet @ '' *'' @ label @ ''*: ''
                       @ entity_text (repr E) new_entities key
                       @ '' (was: '' @ entity_text (repr E) entities key @ '')'')
                     [(''Job Title'', ''job_title''), (''Experience'', ''experience''),
                      (''Skills'', ''skills''), (''Job Type'', ''job_type''),
                      (''Location'', ''location'')])))] @ rest)"
proof -
  let ?c = "i_channel req"
  let ?edited = "state\<lparr>processed := Some False, editing := Some True,
                       original_entities := Some entities\<rparr>"
  let ?w1 = "handle_interaction E0 req w"
  have pressed: "?w1 = w\<lparr>effects := effects w @
                  [Sent ?c (Text (pencil @
                     '' Let's edit the job details. Please provide the updated information:''))],
                conversation_states := (conversation_states w)(?c \<mapsto> ?edited)\<rparr>"
    using assms(1-6)
    by (simp add: handle_interaction_def Let_def jd_edit_def chat_postMessage_def)
  have here: "conversation_states ?w1 ?c = Some ?edited" "user_id ?edited = user_id state"
    by (simp_all add: pressed)
  from edit_mode_persists [OF assms(7) here] assms(8,9)
  have mode: "user_id state2 = user_id state" "editing state2 = Some True"
    "original_entities state2 = Some entities"
    by simp_all
  let ?st = "state2\<lparr>messages := messages state2 @ [m_text mreq]\<rparr>"
  let ?w3 = "w2\<lparr>conversation_states := (conversation_states w2)(?c \<mapsto> ?st)\<rparr>"
  have handled: "process_slack_events E mreq w2 = fst (process_conversation E ?c (m_user mreq) ?w3)"
    using assms(9-16) mode(1) by (simp add: process_slack_events_def Let_def)
  have st: "conversation_states ?w3 ?c = Some ?st" "messages ?st \<noteq> []"
    by simp_all
  have reply: "llm_agent E (join_lines (messages ?st)) = Inr llm_response"
    using assms(17) by simp
  let ?w4 = "call (Classified (join_lines (messages ?st))) ?w3"
  have "process_conversation E ?c (m_user mreq) ?w3 = hiring_request E ?c ?st new_entities ?w4"
    using st reply assms(18,19) by (rule process_conversation_hiring)
  also have "\<dots> = finalize E ?c ?st new_entities ?w4"
    using assms(20) by (rule hiring_request_all_filled)
  finally have fin: "process_slack_events E mreq w2 = fst (finalize E ?c ?st new_entities ?w4)"
    using handled by simp
  have rendered: "confirmation_text (repr E) ?st new_entities
         = pencil @ '' Here are the updated job details:''
           @ concat (map (\<lambda>(label, key).
                 [CHR 0x0A] @ ''  '' @ bullet @ '' *'' @ label @ ''*: ''
                 @ entity_text (repr E) new_entities key
                 @ '' (was: '' @ entity_text (repr E) entities key @ '')'')
               [(''Job Title'', ''job_title''), (''Experience'', ''experience''),
                (''Skills'', ''skills''), (''Job Type'', ''job_type''),
                (''Location'', ''location'')])"
    by (rule confirmation_text_editing) (simp_all add: mode)
  have "\<exists>rest. effects (fst (finalize E ?c ?st new_entities ?w4))
          = effects ?w4 @ Sent ?c (Text (confirmation_text (repr E) ?st new_entities)) # rest"
    using assms(21,22) by (rule finalize_first_message)
  then obtain rest where
    "effects (process_slack_events E mreq w2)
       = effects ?w4 @ Sent ?c (Text (confirmation_text (repr E) ?st new_entities)) # rest"
    unfolding fin by blast
  then have "effects (process_slack_events E mreq w2)
       = effects w2 @
         [Classified (join_lines (messages state2 @ [m_text mreq])),
          Sent ?c (Text (confirmation_text (repr E) ?st new_entities))] @ rest"
    by (simp add: call_def)
  with pressed mode(2,3) show ?thesis unfolding rendered by blast
qed

lemma sample_reply_senior_now:
  "validate_llm_response sample_loads ''senior now''
     = [(''intent'', JStr ''hiring_request''),
        (''entities'', JObj [(''job_title'', JStr ''Backend developer''),
                             (''experience'', JStr ''Senior''), (''skills'', JStr ''Node.js''),
                             (''job_type'', JStr ''full-time''), (''location'', JStr ''Remote'')])]"
  by (simp add: validate_llm_response_def sample_loads_def dict_has_def dict_get_def
      dict_get_or_def required_entities_def hiring_reply_def senior_entities_def)

theorem edit_then_finalize_shows_changes_witness:
  "final_entities confirming = Some sample_entities
   \<and> handle_interaction sample_env (sample_press ''U1'' ''jd_edit'') (sample_world confirming)
       = (sample_world confirming)
           \<lparr>effects :=
              [Sent ''C1'' (Text (pencil @
                 '' Let's edit the job details. Please provide the updated information:''))],
            conversation_states :=
              [''C1'' \<mapsto> confirming\<lparr>processed := Some False, editing := Some True,
                                       original_entities := Some sample_entities\<rparr>]\<rparr>
   \<and> process_slack_events sample_env (sample_message ''U1'' ''I need a backend developer'')
        (handle_interaction sample_env (sample_press ''U1'' ''jd_edit'') (sample_world confirming))
       = handle_interaction sample_env (sample_press ''U1'' ''jd_edit'') (sample_world confirming)
   \<and> (\<exists>rest.
         effects (process_slack_events sample_env (sample_message ''U1'' ''make it senior'')
                    (process_slack_events sample_env
                       (sample_message ''U1'' ''I need a backend developer'')
                       (handle_interaction sample_env (sample_press ''U1'' ''jd_edit'')
                          (sample_world confirming))))
           = [Sent ''C1'' (Text (pencil @
                 '' Let's edit the job details. Please provide the updated information:'')),
              Classified (''I need a backend developer'' @ [CHR 0x0A]
                          @ ''3 years, Node.js, full-time, remote'' @ [CHR 0x0A]
                          @ ''make it senior''),
              Sent ''C1'' (Text
                (pencil @ '' Here are the updated job details:'' @ [CHR 0x0A]
                 @ ''  '' @ bullet @ '' *Job Title*: Backend developer (was: Backend developer)''
                 @ [CHR 0x0A]
                 @ ''  '' @ bullet @ '' *Experience*: Senior (was: 3 years)'' @ [CHR 0x0A]
                 @ ''  '' @ bullet @ '' *Skills*: Node.js (was: Node.js)'' @ [CHR 0x0A]
                 @ ''  '' @ bullet @ '' *Job Type*: full-time (was: full-time)'' @ [CHR 0x0A]
                 @ ''  '' @ bullet @ '' *Location*: Remote (was: Remote)''))] @ rest)"
proof -
  let ?press = "sample_press ''U1'' ''jd_edit''"
  let ?again = "sample_message ''U1'' ''I need a backend developer''"
  let ?msg = "sample_message ''U1'' ''make it senior''"
  let ?new = "[(''job_title'', JStr ''Backend developer''), (''experience'', JStr ''Senior''),
               (''skills'', JStr ''Node.js''), (''job_type'', JStr ''full-time''),
               (''location'', JStr ''Remote'')]"
  let ?edited = "confirming\<lparr>processed := Some False, editing := Some True,
                            original_entities := Some sample_entities\<rparr>"
  let ?w1 = "handle_interaction sample_env ?press (sample_world confirming)"
  let ?later = "[(sample_env, ?again)]"
  let ?w2 = "foldl (\<lambda>w (E1, r). process_slack_events E1 r w) ?w1 ?later"
  have a: "i_type ?press = ''interactive''" "i_action_id ?press = ''jd_edit''"
    "conversation_states (sample_world confirming) (i_channel ?press) = Some confirming"
    "i_user ?press = user_id confirming"
    "final_entities confirming = Some sample_entities" "sample_entities \<noteq> []"
    by (simp_all add: sample_press_def sample_world_def confirming_def collecting_def
        sample_entities_def)
  have e: "i_channel ?press = ''C1''" "effects (sample_world confirming) = []"
    "(conversation_states (sample_world confirming))(''C1'' \<mapsto> ?edited) = [''C1'' \<mapsto> ?edited]"
    by (simp_all add: sample_press_def sample_world_def)
  have pressed: "?w1 = (sample_world confirming)
           \<lparr>effects :=
              [Sent ''C1'' (Text (pencil @
                 '' Let's edit the job details. Please provide the updated information:''))],
            conversation_states := [''C1'' \<mapsto> ?edited]\<rparr>"
    using a by (simp add: handle_interaction_def Let_def jd_edit_def chat_postMessage_def e)
  have again: "process_slack_events sample_env ?again ?w1 = ?w1"
  proof (rule process_slack_events_known_text)
    show "conversation_states ?w1 (m_channel ?again) = Some ?edited"
      by (simp add: pressed sample_message_def)
    show "m_user ?again = user_id ?edited"
      by (simp add: sample_message_def confirming_def collecting_def)
    show "m_text ?again \<in> set (messages ?edited)"
      by (simp add: sample_message_def confirming_def collecting_def)
  qed
  have later: "\<forall>(E1, r) \<in> set ?later. m_channel r = i_channel ?press \<longrightarrow> m_user r = user_id confirming"
    by (simp add: sample_message_def confirming_def collecting_def)
  have w2: "?w2 = ?w2" "?w2 = ?w1"
    using again by simp_all
  have at2: "conversation_states ?w2 (i_channel ?press) = Some ?edited"
    unfolding w2(2) by (simp add: pressed e(1))
  have b: "m_type ?msg = ''events_api''" "m_event_type ?msg = ''message''"
    "m_user ?msg \<noteq> bot_user_id sample_env" "\<not> m_subtype ?msg"
    "m_channel ?msg = i_channel ?press" "m_user ?msg = user_id confirming"
    "m_text ?msg \<notin> set (messages ?edited)"
    by (simp_all add: sample_message_def sample_press_def sample_env_def confirming_def
        collecting_def)
  have f: "join_lines (messages ?edited @ [m_text ?msg])
      = ''I need a backend developer'' @ [CHR 0x0A] @ ''3 years, Node.js, full-time, remote''
        @ [CHR 0x0A] @ ''make it senior''"
    by (simp add: confirming_def collecting_def sample_message_def)
  have c: "llm_agent sample_env (join_lines (messages ?edited @ [m_text ?msg]))
             = Inr ''senior now''"
    "dict_get (validate_llm_response (json_loads sample_env) ''senior now'') ''intent''
       = JStr ''hiring_request''"
    "dict_get (validate_llm_response (json_loads sample_env) ''senior now'') ''entities''
       = JObj ?new"
    unfolding f
    by (rule sample_agent(3))
       (simp_all add: sample_env_def sample_reply_senior_now dict_get_def dict_get_or_def)
  have d: "\<forall>k\<in>set follow_up_order. dict_get ?new k \<noteq> JNull"
    "dict_get ?new ''job_title'' = JStr ''Backend developer''"
    "py_strip ''Backend developer'' \<noteq> []"
    by (simp_all add: follow_up_order_def dict_get_def dict_get_or_def strip_title)
  note inst = edit_then_finalize_shows_changes
    [where ?E0.0 = sample_env and E = sample_env, OF a later w2(1) at2 b c d]
  have g: "pencil @ '' Here are the updated job details:''
           @ concat (map (\<lambda>(label, key).
                 [CHR 0x0A] @ ''  '' @ bullet @ '' *'' @ label @ ''*: ''
                 @ entity_text (repr sample_env) ?new key
                 @ '' (was: '' @ entity_text (repr sample_env) sample_entities key @ '')'')
               [(''Job Title'', ''job_title''), (''Experience'', ''experience''),
                (''Skills'', ''skills''), (''Job Type'', ''job_type''),
                (''Location'', ''location'')])
         = pencil @ '' Here are the updated job details:'' @ [CHR 0x0A]
           @ ''  '' @ bullet @ '' *Job Title*: Backend developer (was: Backend developer)''
           @ [CHR 0x0A]
           @ ''  '' @ bullet @ '' *Experience*: Senior (was: 3 years)'' @ [CHR 0x0A]
           @ ''  '' @ bullet @ '' *Skills*: Node.js (was: Node.js)'' @ [CHR 0x0A]
           @ ''  '' @ bullet @ '' *Job Type*: full-time (was: full-time)'' @ [CHR 0x0A]
           @ ''  '' @ bullet @ '' *Location*: Remote (was: Remote)''"
    by (simp add: entity_text_def dict_get_or_def sample_entities_def)
  from inst obtain rest where
    "effects (process_slack_events sample_env ?msg ?w2)
       = effects ?w2 @
         [Classified (join_lines (messages ?edited @ [m_text ?msg])),
          Sent (i_channel ?press) (Text
            (pencil @ '' Here are the updated job details:''
             @ concat (map (\<lambda>(label, key).
                 [CHR 0x0A] @ ''  '' @ bullet @ '' *'' @ label @ ''*: ''
                 @ entity_text (repr sample_env) ?new key
                 @ '' (was: '' @ entity_text (repr sample_env) sample_entities key @ '')'')
               [(''Job Title'', ''job_title''), (''Experience'', ''experience''),
                (''Skills'', ''skills''), (''Job Type'', ''job_type''),
                (''Location'', ''location'')])))] @ rest"
    by blast
  then have "effects (process_slack_events sample_env ?msg
                        (process_slack_events sample_env ?again ?w1))
       = [Sent ''C1'' (Text (pencil @
             '' Let's edit the job details. Please provide the updated information:'')),
          Classified (''I need a backend developer'' @ [CHR 0x0A]
                      @ ''3 years, Node.js, full-time, remote'' @ [CHR 0x0A]
                      @ ''make it senior''),
          Sent ''C1'' (Text
            (pencil @ '' Here are the updated job details:'' @ [CHR 0x0A]
             @ ''  '' @ bullet @ '' *Job Title*: Backend developer (was: Backend developer)''
             @ [CHR 0x0A]
             @ ''  '' @ bullet @ '' *Experience*: Senior (was: 3 years)'' @ [CHR 0x0A]
             @ ''  '' @ bullet @ '' *Skills*: Node.js (was: Node.js)'' @ [CHR 0x0A]
             @ ''  '' @ bullet @ '' *Job Type*: full-time (was: full-time)'' @ [CHR 0x0A]
             @ ''  '' @ bullet @ '' *Location*: Remote (was: Remote)''))] @ rest"
    unfolding f g e(1) w2(2) again by (simp add: pressed)
  with a(5) pressed again show ?thesis by blast
qed


end
